theory Spec2Isabelle
  imports Main "HOL-Library.Char_ord" "HOL-Library.List_Lexorder" "HOL-Library.Multiset"
    "HOL-Library.AList" "HOL-Library.Sublist"
begin

section \<open>Python values\<close>

text \<open>
  The data handler is a Flask application (\<^verbatim>\<open>data_handler/__main__.py\<close>) in front of
  \<^verbatim>\<open>DataCollector\<close> objects (\<^verbatim>\<open>data_handler/collect_data.py\<close>). Strings are lists of
  characters, each character a code point below 256; Python's order on \<^verbatim>\<open>str\<close> is the
  lexicographic order on these lists. An exception becomes the left summand of a sum
  type.
\<close>

datatype py_error =
    AttributeError
  | KeyError
  | ValueError
  | TypeError
  | Raised string

text \<open>\<^verbatim>\<open>Raised\<close> stands for any exception thrown by code outside the two modules: the
  InfluxDB client, pandas, and the collaborators \<^verbatim>\<open>synchronize\<close> and \<^verbatim>\<open>remove\<close>.\<close>

definition bind :: "py_error + 'a \<Rightarrow> ('a \<Rightarrow> py_error + 'b) \<Rightarrow> py_error + 'b" where
  "bind m f = (case m of Inl e \<Rightarrow> Inl e | Inr x \<Rightarrow> f x)"

subsection \<open>\<^verbatim>\<open>str\<close>, \<^verbatim>\<open>repr\<close>, \<^verbatim>\<open>int\<close> and \<^verbatim>\<open>lower\<close>\<close>

fun digits10 :: "nat \<Rightarrow> string" where
  "digits10 n =
     (if n < 10 then [char_of (48 + n)]
      else digits10 (n div 10) @ [char_of (48 + n mod 10)])"

declare digits10.simps [simp del]

definition str_int :: "int \<Rightarrow> string" where
  "str_int i = (if i < 0 then CHR ''-'' # digits10 (nat (- i)) else digits10 (nat i))"

definition str_bool :: "bool \<Rightarrow> string" where
  "str_bool b = (if b then ''True'' else ''False'')"

definition str_opt :: "string option \<Rightarrow> string" where
  "str_opt v = (case v of None \<Rightarrow> ''None'' | Some s \<Rightarrow> s)"

definition hex_digit :: "nat \<Rightarrow> char" where
  "hex_digit n = (if n < 10 then char_of (48 + n) else char_of (87 + n))"

definition printable :: "char \<Rightarrow> bool" where
  "printable c =
     (let n = (of_char c :: nat)
      in 32 \<le> n \<and> n \<noteq> 127 \<and> (n < 128 \<or> 161 \<le> n) \<and> n \<noteq> 173)"

definition repr_quote :: "string \<Rightarrow> char" where
  "repr_quote s =
     (if CHR 0x27 \<in> set s \<and> CHR 0x22 \<notin> set s then CHR 0x22 else CHR 0x27)"

definition repr_char :: "char \<Rightarrow> char \<Rightarrow> string" where
  "repr_char q c =
     (if c = q \<or> c = CHR 0x5C then [CHR 0x5C, c]
      else if c = CHR 0x09 then [CHR 0x5C, CHR ''t'']
      else if c = CHR 0x0A then [CHR 0x5C, CHR ''n'']
      else if c = CHR 0x0D then [CHR 0x5C, CHR ''r'']
      else if printable c then [c]
      else [CHR 0x5C, CHR ''x'', hex_digit (of_char c div 16), hex_digit (of_char c mod 16)])"

definition repr_str :: "string \<Rightarrow> string" where
  "repr_str s = (let q = repr_quote s in [q] @ concat (map (repr_char q) s) @ [q])"

fun join :: "string \<Rightarrow> string list \<Rightarrow> string" where
  "join sep [] = []"
| "join sep [x] = x"
| "join sep (x # y # ys) = x @ sep @ join sep (y # ys)"

definition str_list :: "string list \<Rightarrow> string" where
  "str_list xs = ''['' @ join '', '' (map repr_str xs) @ '']''"

text \<open>\<^verbatim>\<open>int(s)\<close> on a string: the white space it skips at both ends is the C white
  space (tab to carriage return, and the space) and, of the characters from 127 on,
  the two that Unicode counts as spaces; the separators U+001C to U+001F are not
  skipped. A number of more than 4300 digits is refused.\<close>

definition int_space :: "char \<Rightarrow> bool" where
  "int_space c =
     (let n = (of_char c :: nat)
      in (9 \<le> n \<and> n \<le> 13) \<or> n = 32 \<or> n = 133 \<or> n = 160)"

definition int_strip :: "string \<Rightarrow> string" where
  "int_strip s = rev (dropWhile int_space (rev (dropWhile int_space s)))"

definition is_digit :: "char \<Rightarrow> bool" where
  "is_digit c = (48 \<le> (of_char c :: nat) \<and> (of_char c :: nat) \<le> 57)"

definition digit_val :: "char \<Rightarrow> nat" where
  "digit_val c = of_char c - 48"

fun digits_val :: "nat \<Rightarrow> string \<Rightarrow> nat option" where
  "digits_val acc [] = Some acc"
| "digits_val acc [c] = (if is_digit c then Some (acc * 10 + digit_val c) else None)"
| "digits_val acc (c # d # ds) =
     (if is_digit c then digits_val (acc * 10 + digit_val c) (d # ds)
      else if c = CHR ''_'' \<and> is_digit d then digits_val (acc * 10 + digit_val d) ds
      else None)"

definition int_nat :: "string \<Rightarrow> nat option" where
  "int_nat s =
     (case s of [] \<Rightarrow> None
      | c # cs \<Rightarrow>
          if is_digit c \<and> length (filter is_digit s) \<le> 4300
          then digits_val (digit_val c) cs else None)"

definition py_int :: "string \<Rightarrow> py_error + int" where
  "py_int s =
     (case int_strip s of
        [] \<Rightarrow> Inl ValueError
      | c # cs \<Rightarrow>
          (case (if c = CHR ''-'' then map_option (\<lambda>n. - int n) (int_nat cs)
                 else if c = CHR ''+'' then map_option int (int_nat cs)
                 else map_option int (int_nat (c # cs))) of
             None \<Rightarrow> Inl ValueError
           | Some i \<Rightarrow> Inr i))"

definition lower_char :: "char \<Rightarrow> char" where
  "lower_char c =
     (let n = (of_char c :: nat)
      in if (65 \<le> n \<and> n \<le> 90) \<or> (192 \<le> n \<and> n \<le> 222 \<and> n \<noteq> 215)
         then char_of (n + 32) else c)"

definition lower :: "string \<Rightarrow> string" where
  "lower s = map lower_char s"

text \<open>An argument that is \<^verbatim>\<open>None\<close>, a string or an integer: \<^verbatim>\<open>limit\<close> and \<^verbatim>\<open>offset\<close>
  reach \<^verbatim>\<open>retrieve_data\<close> as \<^verbatim>\<open>None\<close> (parameter absent), as the empty string
  (parameter present and empty) or as an \<^verbatim>\<open>int\<close>.\<close>

datatype pyarg = ArgNone | ArgStr string | ArgInt int

definition str_arg :: "pyarg \<Rightarrow> string" where
  "str_arg a = (case a of ArgNone \<Rightarrow> ''None'' | ArgStr s \<Rightarrow> s | ArgInt i \<Rightarrow> str_int i)"

definition int_arg :: "pyarg \<Rightarrow> py_error + int" where
  "int_arg a = (case a of ArgNone \<Rightarrow> Inl TypeError | ArgStr s \<Rightarrow> py_int s | ArgInt i \<Rightarrow> Inr i)"

section \<open>The retrieval fingerprint\<close>

text \<open>\<^verbatim>\<open>retrieve_data\<close>, line 90:
  \<^verbatim>\<open>dataid = str(datasource) + str(experimentId) + ''.join(sorted(measurements))
      + str(fields) + str(remove_outliers) + str(match_series)
      + str(additional_clause) + str(max_lag) + str(limit)\<close>\<close>

definition dataid ::
  "string \<Rightarrow> string \<Rightarrow> string list \<Rightarrow> string list \<Rightarrow> bool \<Rightarrow> string option \<Rightarrow>
   string option \<Rightarrow> string \<Rightarrow> pyarg \<Rightarrow> string" where
  "dataid datasource experimentId measurements fields match_series remove_outliers
     additional_clause max_lag limit =
     datasource @ experimentId @ join [] (sort measurements) @ str_list fields
       @ str_opt remove_outliers @ str_bool match_series @ str_opt additional_clause
       @ max_lag @ str_arg limit"

section \<open>Tables and the external interfaces\<close>

text \<open>
  A pandas \<^verbatim>\<open>DataFrame\<close> is its row index and its columns in order. A time stamp of
  a \<^verbatim>\<open>DatetimeIndex\<close> is its integer count of nanoseconds, a label of a
  \<^verbatim>\<open>RangeIndex\<close> is its integer. The payload of a cell is never inspected by the two
  modules beyond the missing-value test of \<^verbatim>\<open>dropna\<close>.
\<close>

datatype cell = NaN | Str string | Num int | Time int

record dataframe =
  index :: "int list"
  columns :: "(string \<times> cell list) list"

definition DataFrame :: dataframe where
  "DataFrame = \<lparr>index = [], columns = []\<rparr>"

definition df_empty :: "dataframe \<Rightarrow> bool" where
  "df_empty d = (index d = [] \<or> columns d = [])"

definition has_column :: "dataframe \<Rightarrow> string \<Rightarrow> bool" where
  "has_column d c = (c \<in> set (map fst (columns d)))"

definition column :: "dataframe \<Rightarrow> string \<Rightarrow> py_error + cell list" where
  "column d c = (case map_of (columns d) c of None \<Rightarrow> Inl KeyError | Some v \<Rightarrow> Inr v)"

definition drop_column :: "dataframe \<Rightarrow> string \<Rightarrow> dataframe" where
  "drop_column d c = d\<lparr>columns := filter (\<lambda>(n, v). n \<noteq> c) (columns d)\<rparr>"

definition dropna :: "cell list \<Rightarrow> cell list" where
  "dropna v = filter (\<lambda>c. c \<noteq> NaN) v"

definition unique :: "'a list \<Rightarrow> 'a list" where
  "unique v = rev (remdups (rev v))"

datatype pyobj =
    PyNone
  | PyDataFrame dataframe
  | PySeries "int list" "cell list"
  | PyDict "(string \<times> pyobj) list"
  | PyList "pyobj list"

datatype json = JNull | JStr string | JNum int | JList "json list" | JObj "(string \<times> json) list"

text \<open>
  What the two modules call and do not define: the pandas operations whose result
  depends on the library's alignment and sorting rules, and the collaborators
  \<^verbatim>\<open>synchronize\<close> (\<^verbatim>\<open>data_handler/time_series_matching.py\<close>) and \<^verbatim>\<open>remove\<close>
  (\<^verbatim>\<open>data_handler/outlier_detection.py\<close>). They are parameters of the model, each
  free to raise. They are taken to return a new object and to leave their argument
  as it is.
  \<^item> \<open>concat_rows ts\<close> is \<^verbatim>\<open>pd.concat(ts, ignore_index=True)\<close>;
  \<^item> \<open>concat_sort dfs\<close> is \<^verbatim>\<open>pd.concat(dfs, axis=1).sort_index()\<close>;
  \<^item> \<open>to_datetime v\<close> is \<^verbatim>\<open>pd.to_datetime\<close> on a column, giving the index labels;
  \<^item> \<open>astype_str c\<close> is what \<^verbatim>\<open>astype(str)\<close> makes of one cell;
  \<^item> \<open>to_json x\<close> is \<^verbatim>\<open>json.loads(x.to_json())\<close>.
\<close>

record externals =
  concat_rows :: "dataframe list \<Rightarrow> py_error + dataframe"
  concat_sort :: "dataframe list \<Rightarrow> py_error + dataframe"
  to_datetime :: "cell list \<Rightarrow> py_error + int list"
  astype_str :: "cell \<Rightarrow> string"
  synchronize :: "pyobj \<Rightarrow> string \<Rightarrow> bool \<Rightarrow> py_error + pyobj"
  outlier_remove :: "pyobj \<Rightarrow> nat \<Rightarrow> py_error + pyobj"
  to_json :: "pyobj \<Rightarrow> py_error + json"

section \<open>The collector\<close>

text \<open>\<^verbatim>\<open>query_api.query_data_frame(flux, org=...)\<close>: the backing store, a function of the
  query text and the organisation.\<close>

type_synonym query_api = "string \<Rightarrow> string \<Rightarrow> py_error + pyobj"

record DataCollector =
  url :: string
  org :: string
  bucket :: string
  token :: string
  client :: "query_api option"
  query_api :: query_api

text \<open>\<^verbatim>\<open>_flux_base\<close> and \<^verbatim>\<open>_query_df\<close> (an Isabelle name cannot start with an underscore).\<close>

definition flux_base :: "DataCollector \<Rightarrow> string \<Rightarrow> string" where
  \<open>flux_base self start =
     ''from(bucket: "'' @ bucket self @ ''")\<newline>  |> range(start: '' @ start @ '')\<newline>''\<close>

definition nonempty_frames :: "pyobj list \<Rightarrow> dataframe list" where
  "nonempty_frames ts =
     concat (map (\<lambda>t. case t of PyDataFrame d \<Rightarrow> (if \<not> df_empty d then [d] else []) | _ \<Rightarrow> []) ts)"

definition query_df :: "externals \<Rightarrow> DataCollector \<Rightarrow> string \<Rightarrow> py_error + dataframe" where
  "query_df E self flux =
     bind (query_api self flux (org self)) (\<lambda>tables.
       case tables of
         PyList ts \<Rightarrow>
           (let ts' = nonempty_frames ts
            in if ts' \<noteq> [] then concat_rows E ts' else Inr DataFrame)
       | PyDataFrame d \<Rightarrow> Inr d
       | _ \<Rightarrow> Inr DataFrame)"

subsection \<open>Catalog discovery\<close>

definition tag_values_flux :: "DataCollector \<Rightarrow> string \<Rightarrow> string" where
  \<open>tag_values_flux self tag =
     ''\<newline>import "influxdata/influxdb/schema"\<newline>schema.tagValues(bucket: "'' @ bucket self
       @ ''", tag: "'' @ tag @ ''")\<newline>''\<close>

definition tag_values_for_flux :: "DataCollector \<Rightarrow> string \<Rightarrow> string \<Rightarrow> string" where
  \<open>tag_values_for_flux self tag measurement =
     ''\<newline>import "influxdata/influxdb/schema"\<newline>schema.tagValues(\<newline>  bucket: "'' @ bucket self
       @ ''",\<newline>  tag: "'' @ tag
       @ ''",\<newline>  predicate: (r) => r._measurement == "'' @ measurement @ ''"\<newline>)\<newline>''\<close>

text \<open>The body of the loop over the two tag names, shared by \<^verbatim>\<open>get_all_experimentIds\<close>
  and \<^verbatim>\<open>get_experimentIds_for_measurement\<close>:
  \<^verbatim>\<open>if not df.empty and "_value" in df.columns:
      ids |= set(df["_value"].dropna().astype(str))\<close>\<close>

definition add_values :: "externals \<Rightarrow> dataframe \<Rightarrow> string set \<Rightarrow> py_error + string set" where
  "add_values E df ids =
     (if \<not> df_empty df \<and> has_column df ''_value''
      then bind (column df ''_value'') (\<lambda>v. Inr (ids \<union> set (map (astype_str E) (dropna v))))
      else Inr ids)"

fun collect_ids ::
  "externals \<Rightarrow> DataCollector \<Rightarrow> (string \<Rightarrow> string) \<Rightarrow> string list \<Rightarrow> string set \<Rightarrow> py_error + string set" where
  "collect_ids E self mk [] ids = Inr ids"
| "collect_ids E self mk (tag # tags) ids =
     bind (query_df E self (mk tag)) (\<lambda>df.
     bind (add_values E df ids) (\<lambda>ids'.
       collect_ids E self mk tags ids'))"

definition get_all_experimentIds :: "externals \<Rightarrow> DataCollector \<Rightarrow> py_error + string list" where
  "get_all_experimentIds E self =
     bind (collect_ids E self (tag_values_flux self) [''ExperimentId'', ''ExecutionId''] {})
       (\<lambda>ids. Inr (sorted_list_of_set ids))"

definition get_experimentIds_for_measurement ::
  "externals \<Rightarrow> DataCollector \<Rightarrow> string \<Rightarrow> py_error + string list" where
  "get_experimentIds_for_measurement E self measurement =
     bind (collect_ids E self (\<lambda>tag. tag_values_for_flux self tag measurement)
             [''ExperimentId'', ''ExecutionId''] {})
       (\<lambda>ids. Inr (sorted_list_of_set ids))"

definition measurements_flux :: "DataCollector \<Rightarrow> string \<Rightarrow> string \<Rightarrow> string" where
  \<open>measurements_flux self experimentId start =
     flux_base self start
       @ ''  |> filter(fn: (r) => r.ExperimentId == "'' @ experimentId
       @ ''" or r.ExecutionId == "'' @ experimentId
       @ ''")\<newline>  |> keep(columns: ["_measurement"])\<newline>  |> group()\<newline>  |> distinct(column: "_measurement")\<newline>''\<close>

definition get_measurements_for_experimentId ::
  "externals \<Rightarrow> DataCollector \<Rightarrow> string \<Rightarrow> string \<Rightarrow> py_error + string list" where
  "get_measurements_for_experimentId E self experimentId start =
     bind (query_df E self (measurements_flux self experimentId start)) (\<lambda>df.
       if df_empty df then Inr []
       else
         let col = (if has_column df ''_measurement'' then ''_measurement'' else ''_value'')
         in bind (column df col) (\<lambda>v.
              Inr (sort (unique (map (astype_str E) (dropna v))))))"

text \<open>The values found in the result of a discovery query, for the statement of what
  discovery returns: the cells of its \<^verbatim>\<open>_value\<close> column that are not missing, as
  strings; and the same for the column that \<^verbatim>\<open>get_measurements_for_experimentId\<close>
  reads.\<close>

definition found_values :: "externals \<Rightarrow> dataframe \<Rightarrow> string set" where
  "found_values E df =
     (case map_of (columns df) ''_value'' of
        None \<Rightarrow> {}
      | Some v \<Rightarrow> if df_empty df then {} else astype_str E ` (set v - {NaN}))"

definition found_measurements :: "externals \<Rightarrow> dataframe \<Rightarrow> string set" where
  "found_measurements E df =
     (case map_of (columns df) (if has_column df ''_measurement'' then ''_measurement'' else ''_value'') of
        None \<Rightarrow> {}
      | Some v \<Rightarrow> if df_empty df then {} else astype_str E ` (set v - {NaN}))"

subsection \<open>\<^verbatim>\<open>DataCollector.get_data\<close>\<close>

text \<open>The query text of one measurement (lines 147 to 163).\<close>

definition limit_clause :: "pyarg \<Rightarrow> pyarg \<Rightarrow> py_error + string" where
  "limit_clause limit offset =
     (if limit \<noteq> ArgNone then
        bind (int_arg limit) (\<lambda>l.
          if offset \<noteq> ArgNone then
            bind (int_arg offset) (\<lambda>off.
              Inr (''  |> limit(n: '' @ str_int l @ '', offset: '' @ str_int off @ '')\<newline>''))
          else Inr (''  |> limit(n: '' @ str_int l @ '')\<newline>''))
      else Inr [])"

definition fields_clause :: "string list \<Rightarrow> string" where
  \<open>fields_clause fields' =
     (if fields' \<noteq> [] then
        ''  |> filter(fn: (r) => contains(value: r._field, set: [''
          @ join '', '' (map (\<lambda>f. ''"'' @ f @ ''"'') fields') @ '']))\<newline>''
      else [])\<close>

definition measurement_flux ::
  "DataCollector \<Rightarrow> string \<Rightarrow> string \<Rightarrow> string list \<Rightarrow> pyarg \<Rightarrow> pyarg \<Rightarrow> string \<Rightarrow> string \<Rightarrow>
   py_error + string" where
  \<open>measurement_flux self experimentId m fields' limit offset max_lag start =
     bind (limit_clause limit offset) (\<lambda>lim.
       Inr (flux_base self start
         @ ''  |> filter(fn: (r) => r._measurement == "'' @ m @ ''")\<newline>''
         @ ''  |> filter(fn: (r) => r.ExperimentId == "'' @ experimentId
         @ ''" or r.ExecutionId == "'' @ experimentId @ ''")\<newline>''
         @ fields_clause fields'
         @ ''  |> aggregateWindow(every: duration(v: "'' @ max_lag
         @ ''"), fn: mean, createEmpty: false)\<newline>''
         @ ''  |> pivot(rowKey: ["_time"], columnKey: ["_field"], valueColumn: "_value")\<newline>''
         @ lim))\<close>

text \<open>Lines 166 to 173: the time index and the helper columns of a non-empty result.\<close>

definition set_time_index :: "externals \<Rightarrow> dataframe \<Rightarrow> py_error + dataframe" where
  "set_time_index E df =
     (if has_column df ''_time''
      then bind (column df ''_time'') (\<lambda>v.
           bind (to_datetime E v) (\<lambda>ix. Inr (df\<lparr>index := ix\<rparr>)))
      else Inr df)"

definition drop_helper_columns :: "dataframe \<Rightarrow> dataframe" where
  "drop_helper_columns df =
     fold (\<lambda>c d. if has_column d c then drop_column d c else d)
       [''_time'', ''_start'', ''_stop'', ''result'', ''table''] df"

fun measurement_frames ::
  "externals \<Rightarrow> DataCollector \<Rightarrow> string \<Rightarrow> string list \<Rightarrow> pyarg \<Rightarrow> pyarg \<Rightarrow> string \<Rightarrow> string \<Rightarrow>
   string list \<Rightarrow> dataframe list \<Rightarrow> py_error + dataframe list" where
  "measurement_frames E self experimentId fields' limit offset max_lag start [] dfs = Inr dfs"
| "measurement_frames E self experimentId fields' limit offset max_lag start (m # ms) dfs =
     bind (measurement_flux self experimentId m fields' limit offset max_lag start) (\<lambda>flux.
     bind (query_df E self flux) (\<lambda>df.
       if \<not> df_empty df then
         bind (set_time_index E df) (\<lambda>df'.
           measurement_frames E self experimentId fields' limit offset max_lag start ms
             (dfs @ [drop_helper_columns df']))
       else measurement_frames E self experimentId fields' limit offset max_lag start ms dfs))"

text \<open>The arguments \<^verbatim>\<open>additional_clause\<close>, \<^verbatim>\<open>chunked\<close> and \<^verbatim>\<open>chunk_size\<close> are accepted
  and ignored, as in the source.\<close>

definition collector_get_data ::
  "externals \<Rightarrow> DataCollector \<Rightarrow> string \<Rightarrow> string list \<Rightarrow> string list \<Rightarrow> string option \<Rightarrow> bool \<Rightarrow>
   int \<Rightarrow> pyarg \<Rightarrow> pyarg \<Rightarrow> string \<Rightarrow> string \<Rightarrow> py_error + dataframe" where
  "collector_get_data E self experimentId measurements fields' additional_clause chunked
     chunk_size limit offset max_lag start =
     bind (if measurements = []
           then get_measurements_for_experimentId E self experimentId start
           else Inr measurements) (\<lambda>measurements'.
     bind (measurement_frames E self experimentId fields' limit offset max_lag start
             measurements' []) (\<lambda>dfs.
       if dfs = [] then Inr DataFrame else concat_sort E dfs))"

section \<open>The application\<close>

text \<open>The module's globals: \<^verbatim>\<open>sources\<close>, \<^verbatim>\<open>enable_cache\<close> and \<^verbatim>\<open>data_cache\<close>, and what
  the handlers print. The line that prints the elapsed time is kept as a mark, without
  the time.\<close>

datatype out_line = Line string | Elapsed

record app =
  sources :: "string \<rightharpoonup> DataCollector"
  enable_cache :: bool
  data_cache :: "string \<rightharpoonup> pyobj"
  stdout :: "out_line list"

type_synonym response = "json \<times> nat"

definition purge_cache :: "app \<Rightarrow> response \<times> app" where
  "purge_cache G =
     ((JObj [(''message'', JStr ''Cache purged'')], 200), G\<lparr>data_cache := Map.empty\<rparr>)"

text \<open>The guard of every handler:
  \<^verbatim>\<open>if datasource not in sources or not sources[datasource].client\<close>. It gives the
  collector when the guard lets the request through.\<close>

definition available :: "app \<Rightarrow> string \<Rightarrow> DataCollector option" where
  "available G datasource =
     (case sources G datasource of
        None \<Rightarrow> None
      | Some src \<Rightarrow> (case client src of None \<Rightarrow> None | Some c \<Rightarrow> Some src))"

definition not_available :: "string \<Rightarrow> response" where
  "not_available datasource =
     (JObj [(''error'', JStr (''Data source '' @ datasource @ '' is not available.''))], 404)"

definition currently_not_available :: "string \<Rightarrow> response" where
  "currently_not_available datasource =
     (JObj [(''error'', JStr (''Data source '' @ datasource @ '' is currently not available.''))], 404)"

subsection \<open>The catalog routes\<close>

definition get_all_executionIds ::
  "externals \<Rightarrow> app \<Rightarrow> string \<Rightarrow> py_error + response" where
  "get_all_executionIds E G datasource =
     (case available G datasource of
        None \<Rightarrow> Inr (not_available datasource)
      | Some src \<Rightarrow>
          bind (get_all_experimentIds E src) (\<lambda>experimentIds.
            Inr (JObj [(''ExperimentIds on '' @ datasource, JList (map JStr experimentIds))], 200)))"

definition get_excutionIds ::
  "externals \<Rightarrow> app \<Rightarrow> string \<Rightarrow> string \<Rightarrow> py_error + response" where
  "get_excutionIds E G datasource measurement =
     (case available G datasource of
        None \<Rightarrow> Inr (not_available datasource)
      | Some src \<Rightarrow>
          bind (get_experimentIds_for_measurement E src measurement) (\<lambda>experimentIds.
            Inr (JObj [(''ExperimentIds for measurement '' @ measurement @ '' on '' @ datasource,
                        JList (map JStr experimentIds))], 200)))"

definition get_measurements ::
  "externals \<Rightarrow> app \<Rightarrow> string \<Rightarrow> string \<Rightarrow> py_error + response" where
  "get_measurements E G datasource experimentId =
     (case available G datasource of
        None \<Rightarrow> Inr (not_available datasource)
      | Some src \<Rightarrow>
          bind (get_measurements_for_experimentId E src experimentId ''-90d'') (\<lambda>measurements.
            Inr (JObj [(''Measurements for experimentId '' @ experimentId @ '' on '' @ datasource,
                        JList (map JStr measurements))], 200)))"

subsection \<open>\<^verbatim>\<open>retrieve_data\<close>\<close>

text \<open>Lines 102 to 108: the synchronizer first, then the outlier filter, on the value
  that came from the cache or from the collector.\<close>

definition post_process ::
  "externals \<Rightarrow> bool \<Rightarrow> string option \<Rightarrow> string \<Rightarrow> pyobj \<Rightarrow> py_error + pyobj" where
  "post_process E match_series remove_outliers max_lag data =
     bind (if match_series then synchronize E data max_lag True else Inr data) (\<lambda>data1.
       case remove_outliers of
         None \<Rightarrow> Inr data1
       | Some mode \<Rightarrow>
           if mode \<noteq> [] then
             bind (if lower mode = ''zscore'' then outlier_remove E data1 0 else Inr data1) (\<lambda>data2.
               if lower mode = ''mad'' then outlier_remove E data2 1 else Inr data2)
           else Inr data1)"

definition finish ::
  "externals \<Rightarrow> bool \<Rightarrow> string option \<Rightarrow> string \<Rightarrow> pyobj \<Rightarrow> app \<Rightarrow> (py_error + pyobj) \<times> app" where
  "finish E match_series remove_outliers max_lag data G =
     (case post_process E match_series remove_outliers max_lag data of
        Inl e \<Rightarrow> (Inl e, G)
      | Inr data' \<Rightarrow> (Inr data', G\<lparr>stdout := stdout G @ [Elapsed]\<rparr>))"

definition retrieve_data ::
  "externals \<Rightarrow> app \<Rightarrow> string \<Rightarrow> string \<Rightarrow> string list \<Rightarrow> string list \<Rightarrow> bool \<Rightarrow> string option \<Rightarrow>
   string option \<Rightarrow> bool \<Rightarrow> int \<Rightarrow> pyarg \<Rightarrow> pyarg \<Rightarrow> string \<Rightarrow> (py_error + pyobj) \<times> app" where
  "retrieve_data E G datasource experimentId measurements fields' match_series remove_outliers
     additional_clause chunked chunk_size limit offset max_lag =
     (case available G datasource of
        None \<Rightarrow> (Inr PyNone, G)
      | Some src \<Rightarrow>
          let key = dataid datasource experimentId measurements fields' match_series
                      remove_outliers additional_clause max_lag limit;
              fetched = collector_get_data E src experimentId measurements fields'
                          additional_clause chunked chunk_size limit offset max_lag ''-30d''
          in
            if enable_cache G then
              (case data_cache G key of
                 None \<Rightarrow>
                   (let G1 = G\<lparr>stdout := stdout G @ [Line ''-- Retrieving uncached data'']\<rparr>
                    in case fetched of
                         Inl e \<Rightarrow> (Inl e, G1)
                       | Inr d \<Rightarrow>
                           finish E match_series remove_outliers max_lag (PyDataFrame d)
                             (G1\<lparr>data_cache := (data_cache G1)(key \<mapsto> PyDataFrame d)\<rparr>))
               | Some data \<Rightarrow>
                   finish E match_series remove_outliers max_lag data
                     (G\<lparr>stdout := stdout G @ [Line ''-- Using cached data'']\<rparr>))
            else
              (case fetched of
                 Inl e \<Rightarrow> (Inl e, G)
               | Inr d \<Rightarrow> finish E match_series remove_outliers max_lag (PyDataFrame d) G))"

subsection \<open>The \<^verbatim>\<open>get_data\<close> route\<close>

text \<open>\<^verbatim>\<open>request.args\<close>: the query parameters in the order of the request.\<close>

type_synonym args = "(string \<times> string) list"

definition getlist :: "args \<Rightarrow> string \<Rightarrow> string list" where
  "getlist a k = map snd (filter (\<lambda>(n, v). n = k) a)"

definition get_arg :: "args \<Rightarrow> string \<Rightarrow> string option" where
  "get_arg a k = (case getlist a k of [] \<Rightarrow> None | v # vs \<Rightarrow> Some v)"

definition flag_arg :: "string option \<Rightarrow> bool" where
  "flag_arg v = (case v of None \<Rightarrow> False | Some s \<Rightarrow> if s \<noteq> [] then lower s = ''true'' else False)"

definition int_or_raw :: "string option \<Rightarrow> py_error + pyarg" where
  "int_or_raw v =
     (case v of
        None \<Rightarrow> Inr ArgNone
      | Some s \<Rightarrow> if s \<noteq> [] then bind (py_int s) (\<lambda>i. Inr (ArgInt i)) else Inr (ArgStr s))"

record request =
  q_measurements :: "string list"
  q_fields :: "string list"
  q_additional_clause :: "string option"
  q_chunked :: bool
  q_chunk_size :: int
  q_match_series :: bool
  q_remove_outliers :: "string option"
  q_limit :: pyarg
  q_offset :: pyarg
  q_max_lag :: string

text \<open>Lines 116 to 132.\<close>

definition parse_request :: "args \<Rightarrow> py_error + request" where
  "parse_request a =
     bind (case get_arg a ''chunk_size'' of
             None \<Rightarrow> Inr 10000
           | Some s \<Rightarrow> if s \<noteq> [] then py_int s else Inr 10000) (\<lambda>chunk_size.
     bind (int_or_raw (get_arg a ''limit'')) (\<lambda>limit.
     bind (int_or_raw (get_arg a ''offset'')) (\<lambda>offset.
       Inr \<lparr>q_measurements = getlist a ''measurement'',
            q_fields = getlist a ''field'',
            q_additional_clause = get_arg a ''additional_clause'',
            q_chunked = flag_arg (get_arg a ''chunked''),
            q_chunk_size = chunk_size,
            q_match_series = flag_arg (get_arg a ''match_series''),
            q_remove_outliers = get_arg a ''remove_outliers'',
            q_limit = limit,
            q_offset = offset,
            q_max_lag = (case get_arg a ''max_lag'' of None \<Rightarrow> ''1s'' | Some s \<Rightarrow> s)\<rparr>)))"

definition retrieve_request ::
  "externals \<Rightarrow> app \<Rightarrow> string \<Rightarrow> string \<Rightarrow> request \<Rightarrow> (py_error + pyobj) \<times> app" where
  "retrieve_request E G datasource experimentId q =
     retrieve_data E G datasource experimentId (q_measurements q) (q_fields q) (q_match_series q)
       (q_remove_outliers q) (q_additional_clause q) (q_chunked q) (q_chunk_size q)
       (q_limit q) (q_offset q) (q_max_lag q)"

text \<open>Line 135: \<^verbatim>\<open>type(data) == pd.DataFrame and data.empty or type(data) == dict and data == {}\<close>.\<close>

definition is_empty_result :: "pyobj \<Rightarrow> bool" where
  "is_empty_result data =
     (case data of PyDataFrame d \<Rightarrow> df_empty d | PyDict kv \<Rightarrow> kv = [] | _ \<Rightarrow> False)"

text \<open>\<^verbatim>\<open>data.items()\<close>: the columns of a table as series, the entries of a dict. A
  series yields its values, which have no \<^verbatim>\<open>to_json\<close>; \<^verbatim>\<open>None\<close> and a list have no
  \<^verbatim>\<open>items\<close>.\<close>

definition items :: "pyobj \<Rightarrow> py_error + (string \<times> pyobj) list" where
  "items data =
     (case data of
        PyDataFrame d \<Rightarrow> Inr (map (\<lambda>(n, v). (n, PySeries (index d) v)) (columns d))
      | PyDict kv \<Rightarrow> Inr kv
      | PySeries ix v \<Rightarrow> (if ix = [] \<or> v = [] then Inr [] else Inl AttributeError)
      | _ \<Rightarrow> Inl AttributeError)"

definition obj_to_json :: "externals \<Rightarrow> pyobj \<Rightarrow> py_error + json" where
  "obj_to_json E x =
     (case x of
        PyDataFrame d \<Rightarrow> to_json E x
      | PySeries ix v \<Rightarrow> to_json E x
      | _ \<Rightarrow> Inl AttributeError)"

fun json_items ::
  "externals \<Rightarrow> (string \<times> pyobj) list \<Rightarrow> (string \<times> json) list \<Rightarrow> py_error + (string \<times> json) list" where
  "json_items E [] acc = Inr acc"
| "json_items E ((name, df) # rest) acc =
     bind (obj_to_json E df) (\<lambda>j. json_items E rest (AList.update name j acc))"

text \<open>Lines 143 and 145: \<^verbatim>\<open>series.index = series.index - series.index.min()\<close>. The
  minimum of an empty index is not a number, and subtracting it from the empty index
  leaves it empty.\<close>

definition index_min :: "int list \<Rightarrow> int option" where
  "index_min ix = (case ix of [] \<Rightarrow> None | t # ts \<Rightarrow> Some (fold min ts t))"

definition rebase_index :: "int list \<Rightarrow> int list" where
  "rebase_index ix = (case index_min ix of None \<Rightarrow> ix | Some m \<Rightarrow> map (\<lambda>t. t - m) ix)"

definition rebase :: "pyobj \<Rightarrow> py_error + pyobj" where
  "rebase series =
     (case series of
        PyDataFrame d \<Rightarrow> Inr (PyDataFrame (d\<lparr>index := rebase_index (index d)\<rparr>))
      | PySeries ix v \<Rightarrow> Inr (PySeries (rebase_index ix) v)
      | _ \<Rightarrow> Inl AttributeError)"

text \<open>The assignment to \<^verbatim>\<open>series.index\<close> changes the object that \<^verbatim>\<open>retrieve_data\<close>
  returned. With the cache enabled and no post-processing step run, that object is the
  very entry of the cache, so the entry changes with it.\<close>

definition runs_filter :: "string option \<Rightarrow> bool" where
  "runs_filter remove_outliers =
     (case remove_outliers of
        None \<Rightarrow> False
      | Some mode \<Rightarrow> mode \<noteq> [] \<and> (lower mode = ''zscore'' \<or> lower mode = ''mad''))"

definition assign_index :: "app \<Rightarrow> string \<Rightarrow> string \<Rightarrow> request \<Rightarrow> pyobj \<Rightarrow> app" where
  "assign_index G datasource experimentId q series' =
     (if enable_cache G \<and> \<not> q_match_series q \<and> \<not> runs_filter (q_remove_outliers q)
      then G\<lparr>data_cache := (data_cache G)
             (dataid datasource experimentId (q_measurements q) (q_fields q) (q_match_series q)
                (q_remove_outliers q) (q_additional_clause q) (q_max_lag q) (q_limit q)
              \<mapsto> series')\<rparr>
      else G)"

definition series_response :: "externals \<Rightarrow> pyobj \<Rightarrow> py_error + response" where
  "series_response E series_dict =
     (case series_dict of
        PyDict kv \<Rightarrow> bind (json_items E kv []) (\<lambda>js. Inr (JObj js, 200))
      | PyDataFrame d \<Rightarrow> Inl TypeError
      | PySeries ix v \<Rightarrow> Inl TypeError
      | _ \<Rightarrow> Inl AttributeError)"

definition get_data ::
  "externals \<Rightarrow> app \<Rightarrow> string \<Rightarrow> string \<Rightarrow> string option \<Rightarrow> args \<Rightarrow> (py_error + response) \<times> app" where
  "get_data E G datasource experimentId1 experimentId2 a =
     (case parse_request a of
        Inl e \<Rightarrow> (Inl e, G)
      | Inr q \<Rightarrow>
          (case (case experimentId2 of None \<Rightarrow> None | Some e2 \<Rightarrow> if e2 \<noteq> [] then Some e2 else None) of
             None \<Rightarrow>
               (case retrieve_request E G datasource experimentId1 q of
                  (Inl e, G1) \<Rightarrow> (Inl e, G1)
                | (Inr data, G1) \<Rightarrow>
                    if is_empty_result data then (Inr (currently_not_available datasource), G1)
                    else (bind (items data) (\<lambda>its.
                          bind (json_items E its []) (\<lambda>jsonobjects.
                            Inr (JObj jsonobjects, 200))), G1))
           | Some e2 \<Rightarrow>
               (case retrieve_request E G datasource experimentId1 q of
                  (Inl e, G1) \<Rightarrow> (Inl e, G1)
                | (Inr series1, G1) \<Rightarrow>
                    if series1 = PyNone then (Inr (currently_not_available datasource), G1)
                    else
                      (case rebase series1 of
                         Inl e \<Rightarrow> (Inl e, G1)
                       | Inr series1' \<Rightarrow>
                           (case retrieve_request E
                                   (assign_index G1 datasource experimentId1 q series1')
                                   datasource e2 q of
                              (Inl e, G2) \<Rightarrow> (Inl e, G2)
                            | (Inr series2, G2) \<Rightarrow>
                                (case rebase series2 of
                                   Inl e \<Rightarrow> (Inl e, G2)
                                 | Inr series2' \<Rightarrow>
                                     (bind (synchronize E
                                              (PyDict [(''series1'', series1'), (''series2'', series2')])
                                              (q_max_lag q) False)
                                        (series_response E),
                                      assign_index G2 datasource e2 q series2')))))))"

subsection \<open>Sequences of requests\<close>

text \<open>What reads or writes the cache: a call of \<^verbatim>\<open>retrieve_data\<close>, a request to the
  \<^verbatim>\<open>get_data\<close> route (which calls \<^verbatim>\<open>retrieve_data\<close> once or twice and, on its
  two-experiment path, assigns to the index of what it got), and a request to
  \<^verbatim>\<open>purge_cache\<close>. \<open>run\<close> handles a list of them one after the other.\<close>

datatype event =
    Retrieve string string request
  | GetData string string "string option" args
  | PurgeCache

fun handle :: "externals \<Rightarrow> app \<Rightarrow> event \<Rightarrow> app" where
  "handle E G (Retrieve datasource experimentId q) =
     snd (retrieve_request E G datasource experimentId q)"
| "handle E G (GetData datasource experimentId1 experimentId2 a) =
     snd (get_data E G datasource experimentId1 experimentId2 a)"
| "handle E G PurgeCache = snd (purge_cache G)"

fun run :: "externals \<Rightarrow> app \<Rightarrow> event list \<Rightarrow> app" where
  "run E G [] = G"
| "run E G (ev # evs) = run E (handle E G ev) evs"

text \<open>One call of \<^verbatim>\<open>retrieve_data\<close>: the datasource, the experiment identifier and the
  other ten arguments. \<open>call_key\<close> is its fingerprint, \<open>call_fetch\<close> the table the
  collector returns for it, \<open>calls_of\<close> the calls that an event can make.\<close>

type_synonym call = "string \<times> string \<times> request"

definition call_key :: "call \<Rightarrow> string" where
  "call_key c =
     (case c of (datasource, experimentId, q) \<Rightarrow>
        dataid datasource experimentId (q_measurements q) (q_fields q) (q_match_series q)
          (q_remove_outliers q) (q_additional_clause q) (q_max_lag q) (q_limit q))"

definition call_fetch :: "externals \<Rightarrow> DataCollector \<Rightarrow> call \<Rightarrow> py_error + dataframe" where
  "call_fetch E src c =
     (case c of (datasource, experimentId, q) \<Rightarrow>
        collector_get_data E src experimentId (q_measurements q) (q_fields q)
          (q_additional_clause q) (q_chunked q) (q_chunk_size q) (q_limit q) (q_offset q)
          (q_max_lag q) ''-30d'')"

fun calls_of :: "event \<Rightarrow> call list" where
  "calls_of (Retrieve datasource experimentId q) = [(datasource, experimentId, q)]"
| "calls_of (GetData datasource experimentId1 experimentId2 a) =
     (case parse_request a of
        Inl e \<Rightarrow> []
      | Inr q \<Rightarrow>
          (datasource, experimentId1, q)
          # (case experimentId2 of None \<Rightarrow> [] | Some e2 \<Rightarrow> [(datasource, e2, q)]))"
| "calls_of PurgeCache = []"

text \<open>Every entry of the cache \<open>c\<close> is, apart from its index, the table the collector
  returns for one of the calls \<open>cs\<close>, stored under the fingerprint of that call.\<close>

definition fetched_entries :: "externals \<Rightarrow> app \<Rightarrow> call list \<Rightarrow> (string \<rightharpoonup> pyobj) \<Rightarrow> bool" where
  "fetched_entries E G cs c =
     (\<forall>k v. c k = Some v \<longrightarrow>
        (\<exists>call \<in> set cs. \<exists>src d ix.
           available G (fst call) = Some src \<and> call_key call = k \<and>
           call_fetch E src call = Inr d \<and> v = PyDataFrame (d\<lparr>index := ix\<rparr>)))"

section \<open>A store and collaborators to run the model on\<close>

text \<open>
  A small backing store: experiment 42 has two rows of one field at the instants 1000
  and 2000, experiment 43 has three rows at 5000, 5005 and 5010, experiment 44 lists
  a measurement whose data query returns no table, every other experiment has
  nothing. The store answers by the text of the query, as the real one
  does: it honours \<^verbatim>\<open>limit(n: 1)\<close> and \<^verbatim>\<open>limit(n: 1, offset: 1)\<close>, lists the
  measurement of an experiment, and lists the values of the two tag names.
\<close>

definition demo_frame :: "int list \<Rightarrow> int list \<Rightarrow> dataframe" where
  "demo_frame instants vals =
     \<lparr>index = map int [0..<length instants],
      columns = [(''result'', map (\<lambda>t. Str ''_result'') instants),
                 (''table'', map (\<lambda>t. Num 0) instants),
                 (''_time'', map Time instants),
                 (''Throughput (Mbps)'', map Num vals)]\<rparr>"

definition demo_values :: "cell list \<Rightarrow> dataframe" where
  "demo_values v = \<lparr>index = map int [0..<length v], columns = [(''_value'', v)]\<rparr>"

definition demo_store :: query_api where
  \<open>demo_store flux organisation =
     (if sublist ''schema.tagValues'' flux then
        (if sublist ''tag: "ExperimentId"'' flux
         then Inr (PyDataFrame (demo_values [Str ''7'', Str ''42'', NaN]))
         else Inr (PyList [PyNone, PyDataFrame DataFrame,
                           PyDataFrame (demo_values [Str ''42'', Str ''100''])]))
      else if sublist ''distinct(column: "_measurement")'' flux then
        (if sublist ''r.ExperimentId == "42"'' flux \<or> sublist ''r.ExperimentId == "43"'' flux
            \<or> sublist ''r.ExperimentId == "44"'' flux
         then Inr (PyDataFrame (demo_values [Str ''Throughput_Measures'']))
         else Inr (PyDataFrame DataFrame))
      else if sublist ''r.ExperimentId == "42"'' flux then
        (if sublist ''limit(n: 1, offset: 1)'' flux then Inr (PyDataFrame (demo_frame [2000] [12]))
         else if sublist ''limit(n: 1)'' flux \<or> sublist ''limit(n: 1, offset: 0)'' flux
         then Inr (PyDataFrame (demo_frame [1000] [10]))
         else Inr (PyDataFrame (demo_frame [1000, 2000] [10, 12])))
      else if sublist ''r.ExperimentId == "43"'' flux
      then Inr (PyDataFrame (demo_frame [5000, 5005, 5010] [20, 21, 22]))
      else if sublist ''r.ExperimentId == "44"'' flux then Inr (PyList [])
      else Inr (PyDataFrame DataFrame))\<close>

text \<open>Stand-ins for the library and the collaborators, exact on the values the
  examples give them: one table with an ascending index to concatenate, time cells to
  convert, string cells to print. The stand-in for the outlier filter keeps the first
  row of a table and drops the others; the stand-in for the synchronizer changes
  nothing.\<close>

definition demo_to_datetime :: "cell list \<Rightarrow> py_error + int list" where
  "demo_to_datetime v =
     (if list_all (\<lambda>c. case c of Time t \<Rightarrow> True | _ \<Rightarrow> False) v
      then Inr (map (\<lambda>c. case c of Time t \<Rightarrow> t | _ \<Rightarrow> 0) v)
      else Inl (Raised ''to_datetime''))"

definition demo_astype_str :: "cell \<Rightarrow> string" where
  "demo_astype_str c = (case c of Str s \<Rightarrow> s | Num n \<Rightarrow> str_int n | Time t \<Rightarrow> str_int t | NaN \<Rightarrow> ''nan'')"

definition demo_concat :: "dataframe list \<Rightarrow> py_error + dataframe" where
  "demo_concat dfs =
     (case dfs of
        [d] \<Rightarrow> if sorted (index d) then Inr d else Inl (Raised ''concat'')
      | _ \<Rightarrow> Inl (Raised ''concat''))"

definition first_row :: "pyobj \<Rightarrow> pyobj" where
  "first_row x =
     (case x of
        PyDataFrame d \<Rightarrow>
          PyDataFrame \<lparr>index = take 1 (index d), columns = map (\<lambda>(n, v). (n, take 1 v)) (columns d)\<rparr>
      | _ \<Rightarrow> x)"

definition demo_to_json :: "pyobj \<Rightarrow> py_error + json" where
  "demo_to_json x =
     (case x of
        PySeries ix v \<Rightarrow> Inr (JObj (zip (map str_int ix) (map (\<lambda>c. JStr (demo_astype_str c)) v)))
      | PyDataFrame d \<Rightarrow>
          Inr (JObj (map (\<lambda>(n, v). (n, JObj (zip (map str_int (index d))
                                              (map (\<lambda>c. JStr (demo_astype_str c)) v))))
                       (columns d)))
      | _ \<Rightarrow> Inl AttributeError)"

definition demo_ext :: externals where
  "demo_ext =
     \<lparr>concat_rows = demo_concat,
      concat_sort = demo_concat,
      to_datetime = demo_to_datetime,
      astype_str = demo_astype_str,
      synchronize = (\<lambda>data max_lag merge. Inr data),
      outlier_remove = (\<lambda>data strategy. Inr (first_row data)),
      to_json = demo_to_json\<rparr>"

definition demo_collector :: DataCollector where
  "demo_collector =
     \<lparr>url = ''http://influxdb:8086'', org = ''uma-org'', bucket = ''testdb'', token = ''secret'',
      client = Some demo_store, query_api = demo_store\<rparr>"

definition demo_app :: "bool \<Rightarrow> app" where
  "demo_app flag =
     \<lparr>sources = [''uma'' \<mapsto> demo_collector, ''down'' \<mapsto> demo_collector\<lparr>client := None\<rparr>],
      enable_cache = flag, data_cache = Map.empty, stdout = []\<rparr>"

text \<open>A request for the only measurement of the store, with the outlier filter on.\<close>

definition demo_request :: request where
  "demo_request =
     \<lparr>q_measurements = [''Throughput_Measures''], q_fields = [], q_additional_clause = None,
      q_chunked = False, q_chunk_size = 10000, q_match_series = False,
      q_remove_outliers = Some ''zscore'', q_limit = ArgNone, q_offset = ArgNone,
      q_max_lag = ''1s''\<rparr>"

text \<open>The request without query parameters.\<close>

definition demo_plain :: request where
  "demo_plain =
     \<lparr>q_measurements = [], q_fields = [], q_additional_clause = None, q_chunked = False,
      q_chunk_size = 10000, q_match_series = False, q_remove_outliers = None,
      q_limit = ArgNone, q_offset = ArgNone, q_max_lag = ''1s''\<rparr>"

section \<open>Basic facts\<close>

lemma bind_Inl [simp]: "bind (Inl e) f = Inl e"
  by (simp add: bind_def)

lemma bind_Inr [simp]: "bind (Inr x) f = f x"
  by (simp add: bind_def)

lemma sort_permutation: "mset xs = mset ys \<Longrightarrow> sort xs = sort (ys :: string list)"
  by (rule properties_for_sort) simp_all

lemma available_sources:
  "available (G\<lparr>data_cache := c\<rparr>) ds = available G ds"
  "available (G\<lparr>stdout := out\<rparr>) ds = available G ds"
  "available (G\<lparr>enable_cache := b\<rparr>) ds = available G ds"
  by (simp_all add: available_def)

lemma available_cong: "sources G' = sources G \<Longrightarrow> available G' ds = available G ds"
  by (simp add: available_def)

lemma finish_app:
  "finish E match_series remove_outliers max_lag data G = (r, G') \<Longrightarrow>
     sources G' = sources G \<and> data_cache G' = data_cache G \<and> enable_cache G' = enable_cache G"
  by (auto simp: finish_def split: sum.splits)

lemma retrieve_data_unavailable:
  assumes "available G datasource = None"
  shows "retrieve_data E G datasource experimentId measurements fs match_series remove_outliers
           additional_clause chunked chunk_size limit offset max_lag = (Inr PyNone, G)"
  using assms by (simp add: retrieve_data_def)

lemma retrieve_data_miss:
  assumes "available G datasource = Some src" and "enable_cache G"
    and "data_cache G (dataid datasource experimentId measurements fs match_series
           remove_outliers additional_clause max_lag limit) = None"
    and "collector_get_data E src experimentId measurements fs additional_clause chunked
           chunk_size limit offset max_lag ''-30d'' = Inr d"
    and "post_process E match_series remove_outliers max_lag (PyDataFrame d) = Inr r"
  shows "retrieve_data E G datasource experimentId measurements fs match_series remove_outliers
           additional_clause chunked chunk_size limit offset max_lag
         = (Inr r,
            G\<lparr>data_cache := (data_cache G)
                 (dataid datasource experimentId measurements fs match_series remove_outliers
                    additional_clause max_lag limit \<mapsto> PyDataFrame d),
              stdout := stdout G @ [Line ''-- Retrieving uncached data'', Elapsed]\<rparr>)"
  using assms by (simp add: retrieve_data_def finish_def Let_def)

lemma retrieve_data_hit:
  assumes "available G datasource = Some src" and "enable_cache G"
    and "data_cache G (dataid datasource experimentId measurements fs match_series
           remove_outliers additional_clause max_lag limit) = Some entry"
    and "post_process E match_series remove_outliers max_lag entry = Inr r"
  shows "retrieve_data E G datasource experimentId measurements fs match_series remove_outliers
           additional_clause chunked chunk_size limit offset max_lag
         = (Inr r, G\<lparr>stdout := stdout G @ [Line ''-- Using cached data'', Elapsed]\<rparr>)"
  using assms by (simp add: retrieve_data_def finish_def Let_def)

lemma retrieve_data_disabled:
  assumes "available G datasource = Some src" and "\<not> enable_cache G"
    and "collector_get_data E src experimentId measurements fs additional_clause chunked
           chunk_size limit offset max_lag ''-30d'' = Inr d"
    and "post_process E match_series remove_outliers max_lag (PyDataFrame d) = Inr r"
  shows "retrieve_data E G datasource experimentId measurements fs match_series remove_outliers
           additional_clause chunked chunk_size limit offset max_lag
         = (Inr r, G\<lparr>stdout := stdout G @ [Elapsed]\<rparr>)"
  using assms by (simp add: retrieve_data_def finish_def Let_def)

lemma post_process_plain [simp]: "post_process E False None max_lag data = Inr data"
  by (simp add: post_process_def)

lemma demo_app_simps [simp]:
  "enable_cache (demo_app flag) = flag"
  "data_cache (demo_app flag) = Map.empty"
  "stdout (demo_app flag) = []"
  by (simp_all add: demo_app_def)

subsection \<open>The model on the small store\<close>

lemma demo_client: "client demo_collector = Some demo_store"
  by (simp add: demo_collector_def)

lemma demo_available: "available (demo_app flag) ''uma'' = Some demo_collector"
  by (simp add: available_def demo_app_def demo_client)

lemma demo_fetch_offset0:
  "collector_get_data demo_ext demo_collector ''42'' [''Throughput_Measures''] [] None False 10000
     (ArgInt 1) (ArgInt 0) ''1s'' ''-30d''
   = Inr \<lparr>index = [1000], columns = [(''Throughput (Mbps)'', [Num 10])]\<rparr>"
  by code_simp

lemma demo_fetch_offset1:
  "collector_get_data demo_ext demo_collector ''42'' [''Throughput_Measures''] [] None False 10000
     (ArgInt 1) (ArgInt 1) ''1s'' ''-30d''
   = Inr \<lparr>index = [2000], columns = [(''Throughput (Mbps)'', [Num 12])]\<rparr>"
  by code_simp

lemma demo_fetch_all:
  "collector_get_data demo_ext demo_collector ''42'' [''Throughput_Measures''] [] None False 10000
     ArgNone ArgNone ''1s'' ''-30d''
   = Inr \<lparr>index = [1000, 2000], columns = [(''Throughput (Mbps)'', [Num 10, Num 12])]\<rparr>"
  by code_simp

lemma demo_zscore:
  "post_process demo_ext False (Some ''zscore'') ''1s''
     (PyDataFrame \<lparr>index = [1000, 2000], columns = [(''Throughput (Mbps)'', [Num 10, Num 12])]\<rparr>)
   = Inr (PyDataFrame \<lparr>index = [1000], columns = [(''Throughput (Mbps)'', [Num 10])]\<rparr>)"
  by (simp add: post_process_def demo_ext_def first_row_def lower_def lower_char_def)

lemma demo_retrieve_zscore:
  "retrieve_data demo_ext (demo_app True) ''uma'' ''42'' [''Throughput_Measures''] [] False
     (Some ''zscore'') None False 10000 ArgNone ArgNone ''1s''
   = (Inr (PyDataFrame \<lparr>index = [1000], columns = [(''Throughput (Mbps)'', [Num 10])]\<rparr>),
      (demo_app True)\<lparr>data_cache := (data_cache (demo_app True))
           (dataid ''uma'' ''42'' [''Throughput_Measures''] [] False (Some ''zscore'') None ''1s'' ArgNone
            \<mapsto> PyDataFrame \<lparr>index = [1000, 2000],
                  columns = [(''Throughput (Mbps)'', [Num 10, Num 12])]\<rparr>),
         stdout := stdout (demo_app True) @ [Line ''-- Retrieving uncached data'', Elapsed]\<rparr>)"
  by (rule retrieve_data_miss [OF demo_available _ _ demo_fetch_all demo_zscore]) simp_all

section \<open>The fingerprint and the order of the list-valued parameters\<close>

text \<open>
  C2, as amended. For every permutation of the measurements list the fingerprint is the
  same: \<^verbatim>\<open>retrieve_data\<close> sorts the measurement names before it joins them. The fields
  list enters the fingerprint as \<^verbatim>\<open>str(fields)\<close>, in the order of the request.
\<close>

theorem dataid_measurement_order:
  assumes "mset measurements = mset measurements'"
  shows "dataid datasource experimentId measurements fs match_series remove_outliers
           additional_clause max_lag limit
         = dataid datasource experimentId measurements' fs match_series remove_outliers
           additional_clause max_lag limit"
  using assms by (simp add: dataid_def sort_permutation [of measurements measurements'])

theorem dataid_measurement_order_witness:
  "dataid ''uma'' ''42'' [''Throughput_Measures'', ''Delay''] [''f''] False None None ''1s'' ArgNone
   = dataid ''uma'' ''42'' [''Delay'', ''Throughput_Measures''] [''f''] False None None ''1s'' ArgNone"
  by (rule dataid_measurement_order) simp

text \<open>C2 as stated fails on the fields list: the two orders of the fields \<^verbatim>\<open>a\<close> and
  \<^verbatim>\<open>b\<close> give two fingerprints.\<close>

theorem dataid_field_order_counterexample:
  "mset [''a'', ''b''] = mset [''b'', ''a''] \<and>
   dataid ''uma'' ''42'' [] [''a'', ''b''] False None None ''1s'' ArgNone
   \<noteq> dataid ''uma'' ''42'' [] [''b'', ''a''] False None None ''1s'' ArgNone"
  by (simp add: dataid_def str_list_def repr_str_def repr_quote_def repr_char_def
      printable_def Let_def)

section \<open>The fingerprint and the parameters of a retrieval\<close>

text \<open>
  C1. The claim: two parameter tuples with the same fingerprint give the same result,
  that is, every parameter that changes the result is part of the fingerprint. The
  code: \<open>dataid\<close> has no \<^verbatim>\<open>offset\<close> among its arguments, and \<^verbatim>\<open>offset\<close> goes into the
  query of every measurement. On the small store, the second row of experiment 42
  (\<^verbatim>\<open>limit=1, offset=1\<close>) is what the collector returns with the cache disabled; with
  the cache enabled and the first row (\<^verbatim>\<open>limit=1, offset=0\<close>) retrieved before, the same
  request returns the first row again.
\<close>

theorem offset_ignored_by_cache:
  "fst (retrieve_data demo_ext (demo_app False) ''uma'' ''42'' [''Throughput_Measures''] [] False
          None None False 10000 (ArgInt 1) (ArgInt 1) ''1s'')
     = Inr (PyDataFrame \<lparr>index = [2000], columns = [(''Throughput (Mbps)'', [Num 12])]\<rparr>)
   \<and> fst (retrieve_data demo_ext
            (snd (retrieve_data demo_ext (demo_app True) ''uma'' ''42'' [''Throughput_Measures''] []
                    False None None False 10000 (ArgInt 1) (ArgInt 0) ''1s''))
            ''uma'' ''42'' [''Throughput_Measures''] [] False None None False 10000 (ArgInt 1)
            (ArgInt 1) ''1s'')
     = Inr (PyDataFrame \<lparr>index = [1000], columns = [(''Throughput (Mbps)'', [Num 10])]\<rparr>)"
proof -
  let ?row1 = "\<lparr>index = [1000], columns = [(''Throughput (Mbps)'', [Num 10])]\<rparr>"
  let ?key = "dataid ''uma'' ''42'' [''Throughput_Measures''] [] False None None ''1s'' (ArgInt 1)"
  have off: "retrieve_data demo_ext (demo_app False) ''uma'' ''42'' [''Throughput_Measures''] [] False
          None None False 10000 (ArgInt 1) (ArgInt 1) ''1s''
        = (Inr (PyDataFrame \<lparr>index = [2000], columns = [(''Throughput (Mbps)'', [Num 12])]\<rparr>),
           (demo_app False)\<lparr>stdout := stdout (demo_app False) @ [Elapsed]\<rparr>)"
    by (rule retrieve_data_disabled [OF demo_available _ demo_fetch_offset1]) simp_all
  have first: "retrieve_data demo_ext (demo_app True) ''uma'' ''42'' [''Throughput_Measures''] []
                    False None None False 10000 (ArgInt 1) (ArgInt 0) ''1s''
        = (Inr (PyDataFrame ?row1),
           (demo_app True)\<lparr>data_cache := (data_cache (demo_app True))(?key \<mapsto> PyDataFrame ?row1),
              stdout := stdout (demo_app True) @ [Line ''-- Retrieving uncached data'', Elapsed]\<rparr>)"
    by (rule retrieve_data_miss [OF demo_available _ _ demo_fetch_offset0]) simp_all
  have second: "fst (retrieve_data demo_ext
           ((demo_app True)\<lparr>data_cache := (data_cache (demo_app True))(?key \<mapsto> PyDataFrame ?row1),
              stdout := stdout (demo_app True) @ [Line ''-- Retrieving uncached data'', Elapsed]\<rparr>)
            ''uma'' ''42'' [''Throughput_Measures''] [] False None None False 10000 (ArgInt 1)
            (ArgInt 1) ''1s'') = Inr (PyDataFrame ?row1)"
    by (subst retrieve_data_hit [where src = demo_collector and entry = "PyDataFrame ?row1"
          and r = "PyDataFrame ?row1"])
      (simp_all add: available_sources demo_available)
  show ?thesis
    by (simp only: off first second fst_conv snd_conv simp_thms)
qed

section \<open>The cache\<close>

lemma fetched_entries_mono:
  "fetched_entries E G cs c \<Longrightarrow> set cs \<subseteq> set cs' \<Longrightarrow> fetched_entries E G cs' c"
  unfolding fetched_entries_def by blast

lemma fetched_entries_empty: "fetched_entries E G cs Map.empty"
  by (simp add: fetched_entries_def)

lemma fetched_entries_update:
  assumes "fetched_entries E G cs c" and "call \<in> set cs"
    and "available G (fst call) = Some src" and "call_fetch E src call = Inr d"
  shows "fetched_entries E G cs (c(call_key call \<mapsto> PyDataFrame (d\<lparr>index := ix\<rparr>)))"
  using assms unfolding fetched_entries_def
  by (auto split: if_splits)

lemma post_process_skipped:
  "\<not> match_series \<Longrightarrow> \<not> runs_filter remove_outliers \<Longrightarrow>
     post_process E match_series remove_outliers max_lag data = Inr data"
  by (auto simp: post_process_def runs_filter_def split: option.splits)

lemma retrieve_request_inv:
  assumes "retrieve_request E G0 ds e q = (r, G1)" and "sources G0 = sources G"
    and "fetched_entries E G cs (data_cache G0)"
  shows "sources G1 = sources G \<and> enable_cache G1 = enable_cache G0
       \<and> fetched_entries E G (cs @ [(ds, e, q)]) (data_cache G1)"
proof -
  have old: "fetched_entries E G (cs @ [(ds, e, q)]) (data_cache G0)"
    using assms(3) by (rule fetched_entries_mono) auto
  have step: "sources G1 = sources G0 \<and> enable_cache G1 = enable_cache G0 \<and>
         (data_cache G1 = data_cache G0 \<or>
          (\<exists>src d. available G0 ds = Some src \<and> call_fetch E src (ds, e, q) = Inr d \<and>
             data_cache G1 = (data_cache G0)(call_key (ds, e, q) \<mapsto> PyDataFrame d)))"
    using assms(1)
    by (auto simp: retrieve_request_def retrieve_data_def call_fetch_def call_key_def Let_def
        split: option.splits sum.splits if_splits dest!: finish_app)
  from step have "data_cache G1 = data_cache G0 \<or>
          (\<exists>src d. available G0 ds = Some src \<and> call_fetch E src (ds, e, q) = Inr d \<and>
             data_cache G1 = (data_cache G0)(call_key (ds, e, q) \<mapsto> PyDataFrame d))"
    by blast
  then have "fetched_entries E G (cs @ [(ds, e, q)]) (data_cache G1)"
  proof
    assume "data_cache G1 = data_cache G0"
    with old show ?thesis by simp
  next
    assume "\<exists>src d. available G0 ds = Some src \<and> call_fetch E src (ds, e, q) = Inr d \<and>
             data_cache G1 = (data_cache G0)(call_key (ds, e, q) \<mapsto> PyDataFrame d)"
    then obtain src d where sd: "available G0 ds = Some src" "call_fetch E src (ds, e, q) = Inr d"
      "data_cache G1 = (data_cache G0)(call_key (ds, e, q) \<mapsto> PyDataFrame d)"
      by blast
    have "available G (fst (ds, e, q)) = Some src"
      using sd(1) assms(2) by (simp add: available_cong [of G0 G])
    from fetched_entries_update [OF old _ this sd(2), of "index d"]
    show ?thesis
      by (simp add: sd(3))
  qed
  with step assms(2) show ?thesis
    by simp
qed

lemma retrieve_request_entry:
  assumes "retrieve_request E G0 ds e q = (Inr s, G1)" and "s \<noteq> PyNone"
    and "enable_cache G0" and "\<not> q_match_series q" and "\<not> runs_filter (q_remove_outliers q)"
  shows "data_cache G1 (call_key (ds, e, q)) = Some s"
  using assms
  by (auto simp: retrieve_request_def retrieve_data_def call_key_def Let_def finish_def
      post_process_skipped split: option.splits sum.splits)

lemma assign_index_app:
  "sources (assign_index G1 ds e q s') = sources G1"
  "enable_cache (assign_index G1 ds e q s') = enable_cache G1"
  by (simp_all add: assign_index_def)

lemma assign_index_inv:
  assumes "fetched_entries E G cs (data_cache G1)" and "rebase s = Inr s'"
    and "enable_cache G1 \<and> \<not> q_match_series q \<and> \<not> runs_filter (q_remove_outliers q)
         \<longrightarrow> data_cache G1 (call_key (ds, e, q)) = Some s"
  shows "fetched_entries E G cs (data_cache (assign_index G1 ds e q s'))"
proof (cases "enable_cache G1 \<and> \<not> q_match_series q \<and> \<not> runs_filter (q_remove_outliers q)")
  case False
  then show ?thesis
    using assms(1) by (auto simp: assign_index_def)
next
  case True
  with assms(3) have entry: "data_cache G1 (call_key (ds, e, q)) = Some s"
    by blast
  with assms(1) obtain call src d ix where c: "call \<in> set cs" "available G (fst call) = Some src"
    "call_key call = call_key (ds, e, q)" "call_fetch E src call = Inr d"
    "s = PyDataFrame (d\<lparr>index := ix\<rparr>)"
    unfolding fetched_entries_def by blast
  have s': "s' = PyDataFrame (d\<lparr>index := rebase_index ix\<rparr>)"
    using assms(2) c(5) by (simp add: rebase_def)
  have "data_cache (assign_index G1 ds e q s') = (data_cache G1)(call_key (ds, e, q) \<mapsto> s')"
    using True by (simp add: assign_index_def call_key_def)
  then have "data_cache (assign_index G1 ds e q s')
        = (data_cache G1)(call_key call \<mapsto> PyDataFrame (d\<lparr>index := rebase_index ix\<rparr>))"
    by (simp only: c(3) s')
  with fetched_entries_update [OF assms(1) c(1,2,4)] show ?thesis
    by simp
qed

lemma rebase_not_None: "rebase s = Inr s' \<Longrightarrow> s \<noteq> PyNone"
  by (auto simp: rebase_def)

lemma get_data_inv:
  assumes run: "get_data E G0 ds e1 e2 a = (r, G')" and src: "sources G0 = sources G"
    and inv: "fetched_entries E G cs (data_cache G0)"
  shows "sources G' = sources G
       \<and> fetched_entries E G (cs @ calls_of (GetData ds e1 e2 a)) (data_cache G')"
proof (cases "parse_request a")
  case (Inl err)
  with run have "G' = G0"
    by (simp add: get_data_def)
  with src inv show ?thesis
    by (auto intro: fetched_entries_mono)
next
  case (Inr q)
  note parsed = this
  obtain r1 G1 where first: "retrieve_request E G0 ds e1 q = (r1, G1)"
    by (cases "retrieve_request E G0 ds e1 q") auto
  from retrieve_request_inv [OF first src inv]
  have G1: "sources G1 = sources G" "enable_cache G1 = enable_cache G0"
    "fetched_entries E G (cs @ [(ds, e1, q)]) (data_cache G1)"
    by simp_all
  show ?thesis
  proof (cases "case e2 of None \<Rightarrow> None | Some x \<Rightarrow> if x \<noteq> [] then Some x else None")
    case None
    with run Inr first have "G' = G1"
      by (auto simp: get_data_def split: sum.splits if_splits)
    have mem: "(ds, e1, q) \<in> set (calls_of (GetData ds e1 e2 a))"
      by (simp add: parsed)
    have sub: "set (cs @ [(ds, e1, q)]) \<subseteq> set (cs @ calls_of (GetData ds e1 e2 a))"
      using mem by auto
    have "fetched_entries E G (cs @ calls_of (GetData ds e1 e2 a)) (data_cache G1)"
      by (rule fetched_entries_mono [OF G1(3) sub])
    then show ?thesis
      using G1(1) \<open>G' = G1\<close> by simp
  next
    case (Some other)
    then have e2: "e2 = Some other"
      by (auto split: option.splits if_splits)
    have calls: "calls_of (GetData ds e1 e2 a) = [(ds, e1, q), (ds, other, q)]"
      by (simp add: Inr e2)
    have G1': "fetched_entries E G (cs @ calls_of (GetData ds e1 e2 a)) (data_cache G1)"
      unfolding calls by (rule fetched_entries_mono [OF G1(3)]) auto
    show ?thesis
    proof (cases "\<exists>s1 s1'. r1 = Inr s1 \<and> s1 \<noteq> PyNone \<and> rebase s1 = Inr s1'")
      case False
      with run Inr Some first have "G' = G1"
        by (auto simp: get_data_def split: sum.splits if_splits)
      with G1 G1' show ?thesis
        by simp
    next
      case True
      then obtain s1 s1' where s1: "r1 = Inr s1" "s1 \<noteq> PyNone" "rebase s1 = Inr s1'"
        by blast
      let ?A = "assign_index G1 ds e1 q s1'"
      have "enable_cache G1 \<and> \<not> q_match_series q \<and> \<not> runs_filter (q_remove_outliers q)
            \<longrightarrow> data_cache G1 (call_key (ds, e1, q)) = Some s1"
        using retrieve_request_entry [of E G0 ds e1 q s1 G1] first s1 G1(2) by simp
      from assign_index_inv [OF G1(3) s1(3) this]
      have A: "fetched_entries E G (cs @ [(ds, e1, q)]) (data_cache ?A)" .
      have srcA: "sources ?A = sources G"
        using G1(1) by (simp add: assign_index_app)
      obtain r2 G2 where second: "retrieve_request E ?A ds other q = (r2, G2)"
        by (cases "retrieve_request E ?A ds other q") auto
      from retrieve_request_inv [OF second srcA A]
      have G2: "sources G2 = sources G" "enable_cache G2 = enable_cache ?A"
        "fetched_entries E G (cs @ calls_of (GetData ds e1 e2 a)) (data_cache G2)"
        unfolding calls by simp_all
      show ?thesis
      proof (cases "\<exists>s2 s2'. r2 = Inr s2 \<and> rebase s2 = Inr s2'")
        case False
        with run Inr Some first s1 second have "G' = G2"
          by (auto simp: get_data_def split: sum.splits if_splits)
        with G2 show ?thesis
          by simp
      next
        case True
        then obtain s2 s2' where s2: "r2 = Inr s2" "rebase s2 = Inr s2'"
          by blast
        have G': "G' = assign_index G2 ds other q s2'"
          using run Inr Some first s1 second s2
          by (auto simp: get_data_def split: sum.splits if_splits)
        have "enable_cache G2 \<and> \<not> q_match_series q \<and> \<not> runs_filter (q_remove_outliers q)
              \<longrightarrow> data_cache G2 (call_key (ds, other, q)) = Some s2"
          using retrieve_request_entry [of E ?A ds other q s2 G2] second s2 G2(2)
            rebase_not_None [OF s2(2)]
          by simp
        from assign_index_inv [OF G2(3) s2(2) this] G2(1) show ?thesis
          by (simp add: G' assign_index_app)
      qed
    qed
  qed
qed

lemma handle_inv:
  assumes "sources G0 = sources G" and "fetched_entries E G cs (data_cache G0)"
  shows "sources (handle E G0 ev) = sources G
       \<and> fetched_entries E G (cs @ calls_of ev) (data_cache (handle E G0 ev))"
proof (cases ev)
  case (Retrieve ds e q)
  obtain r G1 where "retrieve_request E G0 ds e q = (r, G1)"
    by (cases "retrieve_request E G0 ds e q") auto
  from retrieve_request_inv [OF this assms] show ?thesis
    by (simp add: Retrieve \<open>retrieve_request E G0 ds e q = (r, G1)\<close>)
next
  case (GetData ds e1 e2 a)
  obtain r G1 where "get_data E G0 ds e1 e2 a = (r, G1)"
    by (cases "get_data E G0 ds e1 e2 a") auto
  from get_data_inv [OF this assms] show ?thesis
    by (simp add: GetData \<open>get_data E G0 ds e1 e2 a = (r, G1)\<close>)
next
  case PurgeCache
  then show ?thesis
    using assms(1) by (simp add: purge_cache_def fetched_entries_empty)
qed

lemma run_inv:
  assumes "sources G0 = sources G" and "fetched_entries E G cs (data_cache G0)"
  shows "fetched_entries E G (cs @ concat (map calls_of evs)) (data_cache (run E G0 evs))"
  using assms
proof (induction evs arbitrary: G0 cs)
  case Nil
  then show ?case by simp
next
  case (Cons ev evs)
  from handle_inv [OF Cons.prems, of ev]
  have "sources (handle E G0 ev) = sources G"
    and "fetched_entries E G (cs @ calls_of ev) (data_cache (handle E G0 ev))"
    by simp_all
  from Cons.IH [OF this] show ?case
    by simp
qed

lemma retrieve_data_entry:
  assumes "enable_cache G" and "available G datasource = Some src"
    and "retrieve_data E G datasource experimentId measurements fs match_series remove_outliers
           additional_clause chunked chunk_size limit offset max_lag = (Inr r, G')"
  shows "\<exists>entry. data_cache G' (dataid datasource experimentId measurements fs match_series
             remove_outliers additional_clause max_lag limit) = Some entry \<and>
           post_process E match_series remove_outliers max_lag entry = Inr r"
  using assms
  by (auto simp: retrieve_data_def finish_def Let_def split: option.splits sum.splits)

text \<open>
  C3, as amended. After any sequence of \<^verbatim>\<open>retrieve_data\<close> calls, \<^verbatim>\<open>get_data\<close> requests
  and purges that starts from the empty cache, every entry of the cache is, apart
  from its time index, the table the collector returned for one of the calls, stored
  under the fingerprint of that call, as it was fetched. The synchronizer and the
  outlier filter run after the cache, on every call: what an available datasource's
  caller receives, with the cache enabled, is the post-processed entry.
\<close>

theorem cache_holds_fetched_tables:
  "(data_cache G = Map.empty \<longrightarrow>
      fetched_entries E G (concat (map calls_of evs)) (data_cache (run E G evs)))
   \<and> (enable_cache G \<and> available G datasource = Some src \<and>
      retrieve_data E G datasource experimentId measurements fs match_series remove_outliers
        additional_clause chunked chunk_size limit offset max_lag = (Inr r, G') \<longrightarrow>
      (\<exists>entry. data_cache G' (dataid datasource experimentId measurements fs match_series
                  remove_outliers additional_clause max_lag limit) = Some entry \<and>
          post_process E match_series remove_outliers max_lag entry = Inr r))"
proof (intro conjI impI)
  assume "data_cache G = Map.empty"
  then have "fetched_entries E G [] (data_cache G)"
    by (simp add: fetched_entries_empty)
  from run_inv [OF refl this, of evs]
  show "fetched_entries E G (concat (map calls_of evs)) (data_cache (run E G evs))"
    by simp
next
  assume "enable_cache G \<and> available G datasource = Some src \<and>
    retrieve_data E G datasource experimentId measurements fs match_series remove_outliers
      additional_clause chunked chunk_size limit offset max_lag = (Inr r, G')"
  then show "\<exists>entry. data_cache G' (dataid datasource experimentId measurements fs match_series
                remove_outliers additional_clause max_lag limit) = Some entry \<and>
        post_process E match_series remove_outliers max_lag entry = Inr r"
    using retrieve_data_entry by blast
qed

text \<open>The witness: a comparison of the experiments 42 and 43, which leaves the table of
  42 in the cache with its index rebased; and a retrieval with the outlier filter.\<close>

lemma demo_compare_entry:
  "data_cache (snd (get_data demo_ext (demo_app True) ''uma'' ''42'' (Some ''43'') []))
     (dataid ''uma'' ''42'' [] [] False None None ''1s'' ArgNone)
   = Some (PyDataFrame \<lparr>index = [0, 1000], columns = [(''Throughput (Mbps)'', [Num 10, Num 12])]\<rparr>)"
  by code_simp

theorem cache_holds_fetched_tables_witness:
  "fetched_entries demo_ext (demo_app True)
     (concat (map calls_of [GetData ''uma'' ''42'' (Some ''43'') []]))
     (data_cache (run demo_ext (demo_app True) [GetData ''uma'' ''42'' (Some ''43'') []]))
   \<and> data_cache (run demo_ext (demo_app True) [GetData ''uma'' ''42'' (Some ''43'') []])
       (dataid ''uma'' ''42'' [] [] False None None ''1s'' ArgNone)
     = Some (PyDataFrame \<lparr>index = [0, 1000],
               columns = [(''Throughput (Mbps)'', [Num 10, Num 12])]\<rparr>)
   \<and> (\<exists>entry.
        data_cache
          (snd (retrieve_data demo_ext (demo_app True) ''uma'' ''42'' [''Throughput_Measures''] []
                  False (Some ''zscore'') None False 10000 ArgNone ArgNone ''1s''))
          (dataid ''uma'' ''42'' [''Throughput_Measures''] [] False (Some ''zscore'') None ''1s'' ArgNone)
        = Some entry \<and>
        post_process demo_ext False (Some ''zscore'') ''1s'' entry
        = Inr (PyDataFrame \<lparr>index = [1000], columns = [(''Throughput (Mbps)'', [Num 10])]\<rparr>))"
  using cache_holds_fetched_tables [of "demo_app True" demo_ext
      "[GetData ''uma'' ''42'' (Some ''43'') []]"
      "''uma''" demo_collector "''42''" "[''Throughput_Measures'']" "[]" False "Some ''zscore''" None
      False 10000 ArgNone ArgNone "''1s''"
      "PyDataFrame \<lparr>index = [1000], columns = [(''Throughput (Mbps)'', [Num 10])]\<rparr>"
      "snd (retrieve_data demo_ext (demo_app True) ''uma'' ''42'' [''Throughput_Measures''] []
                  False (Some ''zscore'') None False 10000 ArgNone ArgNone ''1s'')"]
    demo_compare_entry
  by (simp add: demo_available demo_retrieve_zscore)

text \<open>C3 as stated fails: with the outlier filter requested, the caller receives the
  filtered table of one row and the cache holds the fetched table of two rows.\<close>

theorem cache_entry_counterexample:
  "fst (retrieve_data demo_ext (demo_app True) ''uma'' ''42'' [''Throughput_Measures''] [] False
          (Some ''zscore'') None False 10000 ArgNone ArgNone ''1s'')
     = Inr (PyDataFrame \<lparr>index = [1000], columns = [(''Throughput (Mbps)'', [Num 10])]\<rparr>)
   \<and> data_cache
        (snd (retrieve_data demo_ext (demo_app True) ''uma'' ''42'' [''Throughput_Measures''] [] False
                (Some ''zscore'') None False 10000 ArgNone ArgNone ''1s''))
        (dataid ''uma'' ''42'' [''Throughput_Measures''] [] False (Some ''zscore'') None ''1s'' ArgNone)
     = Some (PyDataFrame \<lparr>index = [1000, 2000],
               columns = [(''Throughput (Mbps)'', [Num 10, Num 12])]\<rparr>)
   \<and> PyDataFrame \<lparr>index = [1000, 2000], columns = [(''Throughput (Mbps)'', [Num 10, Num 12])]\<rparr>
     \<noteq> PyDataFrame \<lparr>index = [1000], columns = [(''Throughput (Mbps)'', [Num 10])]\<rparr>"
  by (simp add: demo_retrieve_zscore)

text \<open>What holds of one retrieval. If the cache has no entry for its fingerprint, or
  the entry is the table that the collector returns for its parameters, the retrieval
  returns with the cache enabled what it returns with the cache disabled. With the
  cache disabled the result is the same whatever the cache \<open>c\<close> holds, and the cache
  is \<open>c\<close> afterwards.\<close>

lemma transparent_on_fresh_key:
  assumes "data_cache G (dataid datasource experimentId measurements fs match_series
             remove_outliers additional_clause max_lag limit) = None
           \<or> (\<exists>src d. available G datasource = Some src
                \<and> collector_get_data E src experimentId measurements fs additional_clause
                    chunked chunk_size limit offset max_lag ''-30d'' = Inr d
                \<and> data_cache G (dataid datasource experimentId measurements fs match_series
                    remove_outliers additional_clause max_lag limit) = Some (PyDataFrame d))"
  shows "fst (retrieve_data E (G\<lparr>enable_cache := True\<rparr>) datasource experimentId measurements fs
                match_series remove_outliers additional_clause chunked chunk_size limit offset max_lag)
         = fst (retrieve_data E (G\<lparr>enable_cache := False, data_cache := c\<rparr>) datasource experimentId
                  measurements fs match_series remove_outliers additional_clause chunked chunk_size
                  limit offset max_lag)
       \<and> data_cache (snd (retrieve_data E (G\<lparr>enable_cache := False, data_cache := c\<rparr>) datasource
                  experimentId measurements fs match_series remove_outliers additional_clause chunked
                  chunk_size limit offset max_lag)) = c"
  using assms
  by (auto simp: retrieve_data_def available_def finish_def Let_def
        split: option.splits sum.splits)

text \<open>
  C4. The claim: a retrieval returns with the cache enabled what it returns with the
  cache disabled. The code: the comparison of two experiments assigns the rebased
  index to the table it retrieved, which with the cache enabled is the entry of the
  cache. On the small store, after the comparison of the experiments 42 and 43, the
  retrieval of experiment 42 returns the instants 0 and 1000 with the cache enabled,
  and the instants 1000 and 2000 with the cache disabled.
\<close>

theorem cache_not_transparent:
  "fst (retrieve_data demo_ext
          (snd (get_data demo_ext (demo_app True) ''uma'' ''42'' (Some ''43'') []))
          ''uma'' ''42'' [] [] False None None False 10000 ArgNone ArgNone ''1s'')
     = Inr (PyDataFrame \<lparr>index = [0, 1000], columns = [(''Throughput (Mbps)'', [Num 10, Num 12])]\<rparr>)
   \<and> fst (retrieve_data demo_ext
            (snd (get_data demo_ext (demo_app False) ''uma'' ''42'' (Some ''43'') []))
            ''uma'' ''42'' [] [] False None None False 10000 ArgNone ArgNone ''1s'')
     = Inr (PyDataFrame \<lparr>index = [1000, 2000],
              columns = [(''Throughput (Mbps)'', [Num 10, Num 12])]\<rparr>)"
  by code_simp

text \<open>What holds of a purge. \<^verbatim>\<open>purge_cache\<close> leaves the cache empty. If a retrieval
  from an available datasource, with the cache enabled, has created the entry of its
  fingerprint and returned \<open>r\<close>, then after the purge the retrieval with the same
  parameters prints that it retrieves uncached data, fetches the table from the
  collector again, stores it as the one entry of the cache, and returns \<open>r\<close>.\<close>

lemma purge_then_retrieve_fresh:
  assumes "enable_cache G" and "available G datasource = Some src"
    and "data_cache G (dataid datasource experimentId measurements fs match_series
           remove_outliers additional_clause max_lag limit) = None"
    and "retrieve_data E G datasource experimentId measurements fs match_series remove_outliers
           additional_clause chunked chunk_size limit offset max_lag = (Inr r, G1)"
  shows "data_cache (snd (purge_cache G1)) = Map.empty
    \<and> (\<exists>d G2.
          collector_get_data E src experimentId measurements fs additional_clause chunked
            chunk_size limit offset max_lag ''-30d'' = Inr d
        \<and> data_cache G1 (dataid datasource experimentId measurements fs match_series
            remove_outliers additional_clause max_lag limit) = Some (PyDataFrame d)
        \<and> retrieve_data E (snd (purge_cache G1)) datasource experimentId measurements fs
            match_series remove_outliers additional_clause chunked chunk_size limit offset max_lag
          = (Inr r, G2)
        \<and> stdout G2 = stdout G1 @ [Line ''-- Retrieving uncached data'', Elapsed]
        \<and> data_cache G2 = [dataid datasource experimentId measurements fs match_series
              remove_outliers additional_clause max_lag limit \<mapsto> PyDataFrame d])"
  using assms
  by (auto simp: retrieve_data_def purge_cache_def finish_def Let_def available_def
      split: option.splits sum.splits)

text \<open>The first page of experiment 42, the request for the second page that the cache
  answers with the first, and the same request after a purge.\<close>

lemma demo_first_page:
  "retrieve_data demo_ext (demo_app True) ''uma'' ''42'' [''Throughput_Measures''] [] False None
     None False 10000 (ArgInt 1) (ArgInt 0) ''1s''
   = (Inr (PyDataFrame \<lparr>index = [1000], columns = [(''Throughput (Mbps)'', [Num 10])]\<rparr>),
      (demo_app True)\<lparr>data_cache := (data_cache (demo_app True))
           (dataid ''uma'' ''42'' [''Throughput_Measures''] [] False None None ''1s'' (ArgInt 1)
            \<mapsto> PyDataFrame \<lparr>index = [1000], columns = [(''Throughput (Mbps)'', [Num 10])]\<rparr>),
         stdout := stdout (demo_app True) @ [Line ''-- Retrieving uncached data'', Elapsed]\<rparr>)"
  by (rule retrieve_data_miss [OF demo_available _ _ demo_fetch_offset0]) simp_all

lemma demo_second_page_cached:
  "retrieve_data demo_ext
     ((demo_app True)\<lparr>data_cache := (data_cache (demo_app True))
           (dataid ''uma'' ''42'' [''Throughput_Measures''] [] False None None ''1s'' (ArgInt 1)
            \<mapsto> PyDataFrame \<lparr>index = [1000], columns = [(''Throughput (Mbps)'', [Num 10])]\<rparr>),
         stdout := stdout (demo_app True) @ [Line ''-- Retrieving uncached data'', Elapsed]\<rparr>)
     ''uma'' ''42'' [''Throughput_Measures''] [] False None None False 10000 (ArgInt 1) (ArgInt 1)
     ''1s''
   = (Inr (PyDataFrame \<lparr>index = [1000], columns = [(''Throughput (Mbps)'', [Num 10])]\<rparr>),
      (demo_app True)\<lparr>data_cache := (data_cache (demo_app True))
           (dataid ''uma'' ''42'' [''Throughput_Measures''] [] False None None ''1s'' (ArgInt 1)
            \<mapsto> PyDataFrame \<lparr>index = [1000], columns = [(''Throughput (Mbps)'', [Num 10])]\<rparr>),
         stdout := [Line ''-- Retrieving uncached data'', Elapsed, Line ''-- Using cached data'',
                    Elapsed]\<rparr>)"
  by (subst retrieve_data_hit [where src = demo_collector
        and entry = "PyDataFrame \<lparr>index = [1000], columns = [(''Throughput (Mbps)'', [Num 10])]\<rparr>"
        and r = "PyDataFrame \<lparr>index = [1000], columns = [(''Throughput (Mbps)'', [Num 10])]\<rparr>"])
    (simp_all add: available_sources demo_available)

lemma demo_second_page_purged:
  "retrieve_data demo_ext
     (snd (purge_cache
        ((demo_app True)\<lparr>data_cache := (data_cache (demo_app True))
           (dataid ''uma'' ''42'' [''Throughput_Measures''] [] False None None ''1s'' (ArgInt 1)
            \<mapsto> PyDataFrame \<lparr>index = [1000], columns = [(''Throughput (Mbps)'', [Num 10])]\<rparr>),
         stdout := [Line ''-- Retrieving uncached data'', Elapsed, Line ''-- Using cached data'',
                    Elapsed]\<rparr>)))
     ''uma'' ''42'' [''Throughput_Measures''] [] False None None False 10000 (ArgInt 1) (ArgInt 1)
     ''1s''
   = (Inr (PyDataFrame \<lparr>index = [2000], columns = [(''Throughput (Mbps)'', [Num 12])]\<rparr>),
      (demo_app True)\<lparr>data_cache :=
           [dataid ''uma'' ''42'' [''Throughput_Measures''] [] False None None ''1s'' (ArgInt 1)
            \<mapsto> PyDataFrame \<lparr>index = [2000], columns = [(''Throughput (Mbps)'', [Num 12])]\<rparr>],
         stdout := [Line ''-- Retrieving uncached data'', Elapsed, Line ''-- Using cached data'',
                    Elapsed, Line ''-- Retrieving uncached data'', Elapsed]\<rparr>)"
  by (subst retrieve_data_miss [where src = demo_collector
        and d = "\<lparr>index = [2000], columns = [(''Throughput (Mbps)'', [Num 12])]\<rparr>"
        and r = "PyDataFrame \<lparr>index = [2000], columns = [(''Throughput (Mbps)'', [Num 12])]\<rparr>"])
    (simp_all add: purge_cache_def available_sources demo_available demo_fetch_offset1)

text \<open>
  C5. The claim: after a purge, the retrieval whose parameters match an entry that the
  cache held recomputes, and returns what it returned before the purge. The code:
  the purge empties the cache and the retrieval recomputes, but what it returned
  before the purge can be the table of another request. On the small store, with the
  first page of experiment 42 (\<^verbatim>\<open>limit=1, offset=0\<close>) in the cache, the request for the
  second page (\<^verbatim>\<open>limit=1, offset=1\<close>) has the same fingerprint and returns the row at
  1000; after the purge the same request returns the row at 2000.
\<close>

theorem purge_changes_value:
  "fst (retrieve_data demo_ext
          (snd (retrieve_data demo_ext (demo_app True) ''uma'' ''42'' [''Throughput_Measures''] []
                  False None None False 10000 (ArgInt 1) (ArgInt 0) ''1s''))
          ''uma'' ''42'' [''Throughput_Measures''] [] False None None False 10000 (ArgInt 1)
          (ArgInt 1) ''1s'')
     = Inr (PyDataFrame \<lparr>index = [1000], columns = [(''Throughput (Mbps)'', [Num 10])]\<rparr>)
   \<and> data_cache
       (snd (retrieve_data demo_ext
          (snd (retrieve_data demo_ext (demo_app True) ''uma'' ''42'' [''Throughput_Measures''] []
                  False None None False 10000 (ArgInt 1) (ArgInt 0) ''1s''))
          ''uma'' ''42'' [''Throughput_Measures''] [] False None None False 10000 (ArgInt 1)
          (ArgInt 1) ''1s''))
       (dataid ''uma'' ''42'' [''Throughput_Measures''] [] False None None ''1s'' (ArgInt 1))
     = Some (PyDataFrame \<lparr>index = [1000], columns = [(''Throughput (Mbps)'', [Num 10])]\<rparr>)
   \<and> fst (retrieve_data demo_ext
            (snd (purge_cache
               (snd (retrieve_data demo_ext
                  (snd (retrieve_data demo_ext (demo_app True) ''uma'' ''42''
                          [''Throughput_Measures''] [] False None None False 10000 (ArgInt 1)
                          (ArgInt 0) ''1s''))
                  ''uma'' ''42'' [''Throughput_Measures''] [] False None None False 10000 (ArgInt 1)
                  (ArgInt 1) ''1s''))))
            ''uma'' ''42'' [''Throughput_Measures''] [] False None None False 10000 (ArgInt 1)
            (ArgInt 1) ''1s'')
     = Inr (PyDataFrame \<lparr>index = [2000], columns = [(''Throughput (Mbps)'', [Num 12])]\<rparr>)"
  by (simp only: demo_first_page demo_second_page_cached demo_second_page_purged fst_conv
      snd_conv) simp

section \<open>The response to an empty result and to an unavailable datasource\<close>

lemma parse_request_no_args:
  "parse_request [] =
     Inr \<lparr>q_measurements = [], q_fields = [], q_additional_clause = None, q_chunked = False,
          q_chunk_size = 10000, q_match_series = False, q_remove_outliers = None,
          q_limit = ArgNone, q_offset = ArgNone, q_max_lag = ''1s''\<rparr>"
  by (simp add: parse_request_def get_arg_def getlist_def int_or_raw_def flag_arg_def)

lemma demo_fetch_none:
  "collector_get_data demo_ext demo_collector ''4'' [] [] None False 10000 ArgNone ArgNone ''1s''
     ''-30d'' = Inr DataFrame"
  by code_simp

lemma demo_retrieve_none:
  "retrieve_data demo_ext (demo_app True) ''uma'' ''4'' [] [] False None None False 10000 ArgNone
     ArgNone ''1s''
   = (Inr (PyDataFrame DataFrame),
      (demo_app True)\<lparr>data_cache := (data_cache (demo_app True))
           (dataid ''uma'' ''4'' [] [] False None None ''1s'' ArgNone \<mapsto> PyDataFrame DataFrame),
         stdout := stdout (demo_app True) @ [Line ''-- Retrieving uncached data'', Elapsed]\<rparr>)"
  by (rule retrieve_data_miss [OF demo_available _ _ demo_fetch_none]) simp_all

text \<open>
  C6, as amended. When the retrieval from an available datasource yields an empty
  table (or an empty dict), the single-experiment path of the \<^verbatim>\<open>get_data\<close> route answers
  with status 404 and the message that the datasource is currently not available.
  This is also the answer of the two-experiment path for a datasource that is not
  configured or has no client: an empty result has no signal of its own.
\<close>

theorem empty_result_not_available:
  "(parse_request a = Inr q \<and> retrieve_request E G datasource experimentId q = (Inr data, G')
      \<and> is_empty_result data
    \<longrightarrow> get_data E G datasource experimentId None a
        = (Inr (currently_not_available datasource), G'))
   \<and> (parse_request a = Inr q \<and> available G datasource = None \<and> other \<noteq> []
    \<longrightarrow> get_data E G datasource experimentId (Some other) a
        = (Inr (currently_not_available datasource), G))"
  by (auto simp: get_data_def retrieve_request_def retrieve_data_unavailable)

theorem empty_result_not_available_witness:
  "get_data demo_ext (demo_app True) ''uma'' ''4'' None []
     = (Inr (currently_not_available ''uma''),
        snd (retrieve_data demo_ext (demo_app True) ''uma'' ''4'' [] [] False None None False 10000
               ArgNone ArgNone ''1s''))
   \<and> get_data demo_ext (demo_app True) ''down'' ''4'' (Some ''5'') []
     = (Inr (currently_not_available ''down''), demo_app True)"
proof -
  let ?G' = "snd (retrieve_data demo_ext (demo_app True) ''uma'' ''4'' [] [] False None None False
                    10000 ArgNone ArgNone ''1s'')"
  have parsed: "parse_request [] = Inr demo_plain"
    by (simp add: parse_request_no_args demo_plain_def)
  have retrieved: "retrieve_request demo_ext (demo_app True) ''uma'' ''4'' demo_plain
                   = (Inr (PyDataFrame DataFrame), ?G')"
    by (simp add: retrieve_request_def demo_plain_def demo_retrieve_none)
  have empty: "is_empty_result (PyDataFrame DataFrame)"
    by (simp add: is_empty_result_def df_empty_def DataFrame_def)
  have down: "available (demo_app True) ''down'' = None"
    by (simp add: available_def demo_app_def)
  have "get_data demo_ext (demo_app True) ''uma'' ''4'' None []
          = (Inr (currently_not_available ''uma''), ?G')"
    using empty_result_not_available [where a = "[]" and q = demo_plain and E = demo_ext
        and G = "demo_app True" and datasource = "''uma''" and experimentId = "''4''"
        and data = "PyDataFrame DataFrame" and G' = ?G', THEN conjunct1]
      parsed retrieved empty
    by blast
  moreover have "get_data demo_ext (demo_app True) ''down'' ''4'' (Some ''5'') []
          = (Inr (currently_not_available ''down''), demo_app True)"
    using empty_result_not_available [where a = "[]" and q = demo_plain and E = demo_ext
        and G = "demo_app True" and datasource = "''down''" and experimentId = "''4''"
        and other = "''5''", THEN conjunct2]
      parsed down
    by simp
  ultimately show ?thesis
    by simp
qed

text \<open>C6 as stated fails: for the datasource \<^verbatim>\<open>uma\<close>, the response to an experiment
  without rows, where \<^verbatim>\<open>uma\<close> is available, is the response of the two-experiment path
  where \<^verbatim>\<open>uma\<close> is not configured.\<close>

theorem empty_result_counterexample:
  "fst (get_data demo_ext (demo_app True) ''uma'' ''4'' None [])
     = Inr (JObj [(''error'', JStr ''Data source uma is currently not available.'')], 404)
   \<and> fst (get_data demo_ext ((demo_app True)\<lparr>sources := Map.empty\<rparr>) ''uma'' ''4'' (Some ''5'') [])
     = Inr (JObj [(''error'', JStr ''Data source uma is currently not available.'')], 404)"
  by (simp add: get_data_def parse_request_no_args retrieve_request_def demo_retrieve_none
      is_empty_result_def df_empty_def DataFrame_def retrieve_data_unavailable available_def
      currently_not_available_def)

text \<open>
  C7. The claim: for a datasource that is not configured or has no client, every route
  answers not-found and none raises. The code: the three catalog routes and the
  two-experiment path of \<^verbatim>\<open>get_data\<close> answer 404; the single-experiment path of
  \<^verbatim>\<open>get_data\<close> receives \<^verbatim>\<open>None\<close> from \<^verbatim>\<open>retrieve_data\<close>, finds it neither an empty table
  nor an empty dict, and calls \<^verbatim>\<open>data.items()\<close> on it, which raises
  \<^verbatim>\<open>AttributeError\<close>.
\<close>

theorem unavailable_datasource_routes:
  assumes "available G datasource = None" and "parse_request a = Inr q" and "other \<noteq> []"
  shows "get_all_executionIds E G datasource = Inr (not_available datasource)
       \<and> get_excutionIds E G datasource measurement = Inr (not_available datasource)
       \<and> get_measurements E G datasource experimentId = Inr (not_available datasource)
       \<and> get_data E G datasource experimentId (Some other) a
           = (Inr (currently_not_available datasource), G)
       \<and> get_data E G datasource experimentId None a = (Inl AttributeError, G)"
  using assms
  by (auto simp: get_all_executionIds_def get_excutionIds_def get_measurements_def get_data_def
      retrieve_request_def retrieve_data_unavailable is_empty_result_def items_def)

theorem unavailable_datasource_routes_witness:
  "get_all_executionIds demo_ext (demo_app True) ''nope'' = Inr (not_available ''nope'')
   \<and> get_excutionIds demo_ext (demo_app True) ''nope'' ''Throughput_Measures''
       = Inr (not_available ''nope'')
   \<and> get_measurements demo_ext (demo_app True) ''nope'' ''42'' = Inr (not_available ''nope'')
   \<and> get_data demo_ext (demo_app True) ''nope'' ''42'' (Some ''43'') []
       = (Inr (currently_not_available ''nope''), demo_app True)
   \<and> get_data demo_ext (demo_app True) ''nope'' ''42'' None [] = (Inl AttributeError, demo_app True)"
proof (rule unavailable_datasource_routes)
  show "available (demo_app True) ''nope'' = None"
    by (simp add: available_def demo_app_def)
  show "parse_request [] = Inr demo_plain"
    by (simp add: parse_request_no_args demo_plain_def)
  show "''43'' \<noteq> []"
    by simp
qed

section \<open>The collector\<close>

lemma measurement_frames_no_rows:
  assumes "\<forall>m \<in> set ms. \<exists>flux df.
             measurement_flux self experimentId m fs limit offset max_lag start = Inr flux \<and>
             query_df E self flux = Inr df \<and> df_empty df"
  shows "measurement_frames E self experimentId fs limit offset max_lag start ms dfs = Inr dfs"
  using assms by (induction ms arbitrary: dfs) auto

text \<open>
  C8. \<^verbatim>\<open>DataCollector.get_data\<close> with an empty measurements argument first calls
  \<^verbatim>\<open>get_measurements_for_experimentId\<close> for the experiment identifier and goes on as
  with the list it returns (an error of the resolution is the error of the call, an
  empty list gives the empty table). When the query of every resolved measurement
  returns an empty result, the call returns the empty table \<^verbatim>\<open>pd.DataFrame()\<close> and no
  error.
\<close>

theorem get_data_resolves_measurements:
  "collector_get_data E self experimentId [] fs additional_clause chunked chunk_size limit offset
     max_lag start
   = bind (get_measurements_for_experimentId E self experimentId start) (\<lambda>ms.
       if ms = [] then Inr DataFrame
       else collector_get_data E self experimentId ms fs additional_clause chunked chunk_size
              limit offset max_lag start)
   \<and> (get_measurements_for_experimentId E self experimentId start = Inr ms \<and>
      (\<forall>m \<in> set ms. \<exists>flux df.
          measurement_flux self experimentId m fs limit offset max_lag start = Inr flux \<and>
          query_df E self flux = Inr df \<and> df_empty df)
      \<longrightarrow> collector_get_data E self experimentId [] fs additional_clause chunked chunk_size limit
            offset max_lag start = Inr DataFrame \<and> df_empty DataFrame)"
proof (intro conjI impI)
  show "collector_get_data E self experimentId [] fs additional_clause chunked chunk_size limit offset
     max_lag start
   = bind (get_measurements_for_experimentId E self experimentId start) (\<lambda>ms.
       if ms = [] then Inr DataFrame
       else collector_get_data E self experimentId ms fs additional_clause chunked chunk_size
              limit offset max_lag start)"
    by (cases "get_measurements_for_experimentId E self experimentId start")
      (simp_all add: collector_get_data_def)
next
  assume "get_measurements_for_experimentId E self experimentId start = Inr ms \<and>
      (\<forall>m \<in> set ms. \<exists>flux df.
          measurement_flux self experimentId m fs limit offset max_lag start = Inr flux \<and>
          query_df E self flux = Inr df \<and> df_empty df)"
  then show "collector_get_data E self experimentId [] fs additional_clause chunked chunk_size limit
            offset max_lag start = Inr DataFrame"
    by (simp add: collector_get_data_def measurement_frames_no_rows)
next
  show "df_empty DataFrame"
    by (simp add: df_empty_def DataFrame_def)
qed

lemma demo_measurements_44:
  "get_measurements_for_experimentId demo_ext demo_collector ''44'' ''-30d'' = Inr [''Throughput_Measures'']"
  by code_simp

lemma demo_query_44:
  "\<exists>flux df.
     measurement_flux demo_collector ''44'' ''Throughput_Measures'' [] ArgNone ArgNone ''1s'' ''-30d''
       = Inr flux \<and>
     query_df demo_ext demo_collector flux = Inr df \<and> df_empty df"
proof -
  have "bind (measurement_flux demo_collector ''44'' ''Throughput_Measures'' [] ArgNone ArgNone
                ''1s'' ''-30d'') (query_df demo_ext demo_collector) = Inr DataFrame"
    by code_simp
  moreover have "df_empty DataFrame"
    by (simp add: df_empty_def DataFrame_def)
  ultimately show ?thesis
    by (auto simp: bind_def split: sum.splits)
qed

theorem get_data_resolves_measurements_witness:
  "collector_get_data demo_ext demo_collector ''44'' [] [] None False 10000 ArgNone ArgNone ''1s''
     ''-30d''
   = bind (get_measurements_for_experimentId demo_ext demo_collector ''44'' ''-30d'') (\<lambda>ms.
       if ms = [] then Inr DataFrame
       else collector_get_data demo_ext demo_collector ''44'' ms [] None False 10000 ArgNone
              ArgNone ''1s'' ''-30d'')
   \<and> collector_get_data demo_ext demo_collector ''44'' [] [] None False 10000 ArgNone ArgNone
       ''1s'' ''-30d'' = Inr DataFrame
   \<and> df_empty DataFrame"
proof -
  note resolved = get_data_resolves_measurements [of demo_ext demo_collector "''44''" "[]" None
      False 10000 ArgNone ArgNone "''1s''" "''-30d''" "[''Throughput_Measures'']"]
  have "\<forall>m \<in> set [''Throughput_Measures'']. \<exists>flux df.
          measurement_flux demo_collector ''44'' m [] ArgNone ArgNone ''1s'' ''-30d'' = Inr flux \<and>
          query_df demo_ext demo_collector flux = Inr df \<and> df_empty df"
    using demo_query_44 by simp
  with demo_measurements_44 resolved [THEN conjunct2]
  have "collector_get_data demo_ext demo_collector ''44'' [] [] None False 10000 ArgNone ArgNone
          ''1s'' ''-30d'' = Inr DataFrame \<and> df_empty DataFrame"
    by blast
  with resolved [THEN conjunct1] show ?thesis
    by blast
qed

lemma column_has:
  "has_column df c \<Longrightarrow> \<exists>v. map_of (columns df) c = Some v \<and> column df c = Inr v"
  by (cases "map_of (columns df) c")
    (auto simp: has_column_def column_def map_of_eq_None_iff)

lemma column_missing: "\<not> has_column df c \<Longrightarrow> map_of (columns df) c = None"
  by (simp add: has_column_def map_of_eq_None_iff)

lemma values_as_set: "set (dropna v) = set v - {NaN}"
  by (auto simp: dropna_def)

lemma add_values_found: "add_values E df ids = Inr (ids \<union> found_values E df)"
proof (cases "has_column df ''_value''")
  case True
  then obtain v where "map_of (columns df) ''_value'' = Some v" "column df ''_value'' = Inr v"
    using column_has by blast
  then show ?thesis
    using True by (simp add: add_values_def found_values_def values_as_set)
next
  case False
  then show ?thesis
    by (simp add: add_values_def found_values_def column_missing)
qed

lemma found_values_finite: "finite (found_values E df)"
  by (simp add: found_values_def split: option.splits)

lemma found_values_empty: "df_empty df \<Longrightarrow> found_values E df = {}"
  by (simp add: found_values_def split: option.splits)

lemma collect_two_tags:
  assumes "query_df E self (mk ''ExperimentId'') = Inr d1"
    and "query_df E self (mk ''ExecutionId'') = Inr d2"
  shows "collect_ids E self mk [''ExperimentId'', ''ExecutionId''] {}
         = Inr (found_values E d1 \<union> found_values E d2)"
  using assms by (simp add: add_values_found)

lemma sorted_ids:
  assumes "finite A"
  shows "sorted (sorted_list_of_set A) \<and> distinct (sorted_list_of_set A)
         \<and> set (sorted_list_of_set A) = (A :: string set)"
  using assms by simp

lemma unique_set [simp]: "set (unique xs) = set xs"
  by (simp add: unique_def)

lemma unique_distinct [simp]: "distinct (unique xs)"
  by (simp add: unique_def)

lemma measurements_found:
  assumes "query_df E self (measurements_flux self experimentId start) = Inr d"
    and "\<not> df_empty d" and "has_column d ''_measurement'' \<or> has_column d ''_value''"
  shows "\<exists>ms. get_measurements_for_experimentId E self experimentId start = Inr ms
           \<and> sorted ms \<and> distinct ms \<and> set ms = found_measurements E d"
proof -
  let ?col = "if has_column d ''_measurement'' then ''_measurement'' else ''_value''"
  have "has_column d ?col"
    using assms(3) by auto
  then obtain v where v: "map_of (columns d) ?col = Some v" "column d ?col = Inr v"
    using column_has by blast
  have "get_measurements_for_experimentId E self experimentId start
        = Inr (sort (unique (map (astype_str E) (dropna v))))"
    using assms(1,2) v(2) by (simp add: get_measurements_for_experimentId_def Let_def)
  moreover have "found_measurements E d = astype_str E ` (set v - {NaN})"
    using assms(2) v(1) by (simp add: found_measurements_def)
  ultimately show ?thesis
    by (simp add: values_as_set)
qed

lemma ids_of_two_tags:
  assumes "query_df E self (mk ''ExperimentId'') = Inr d1"
    and "query_df E self (mk ''ExecutionId'') = Inr d2"
  shows "\<exists>ids. bind (collect_ids E self mk [''ExperimentId'', ''ExecutionId''] {})
                  (\<lambda>ids. Inr (sorted_list_of_set ids)) = Inr ids
           \<and> sorted ids \<and> distinct ids \<and> set ids = found_values E d1 \<union> found_values E d2
           \<and> (df_empty d1 \<and> df_empty d2 \<longrightarrow> ids = [])"
proof -
  let ?ids = "sorted_list_of_set (found_values E d1 \<union> found_values E d2)"
  have fin: "finite (found_values E d1 \<union> found_values E d2)"
    by (simp add: found_values_finite)
  have collected: "collect_ids E self mk [''ExperimentId'', ''ExecutionId''] {}
         = Inr (found_values E d1 \<union> found_values E d2)"
    by (rule collect_two_tags [OF assms])
  have "bind (collect_ids E self mk [''ExperimentId'', ''ExecutionId''] {})
          (\<lambda>ids. Inr (sorted_list_of_set ids)) = Inr ?ids"
    by (simp only: collected bind_Inr)
  moreover have "df_empty d1 \<and> df_empty d2 \<longrightarrow> ?ids = []"
    by (simp add: found_values_empty)
  ultimately show ?thesis
    using sorted_ids [OF fin] by blast
qed

text \<open>
  C9. When the queries succeed, \<^verbatim>\<open>get_all_experimentIds\<close> and
  \<^verbatim>\<open>get_experimentIds_for_measurement\<close> return the values found under the tag name
  \<^verbatim>\<open>ExperimentId\<close> together with those found under \<^verbatim>\<open>ExecutionId\<close>, each once, in
  ascending lexicographic order; \<^verbatim>\<open>get_measurements_for_experimentId\<close> returns the
  measurement names of its one query, which filters on either tag name, each once,
  in ascending lexicographic order. Each returns the empty list, and no error, when
  its queries return no rows.
\<close>

theorem catalog_discovery:
  "(query_df E self (tag_values_flux self ''ExperimentId'') = Inr d1 \<and>
    query_df E self (tag_values_flux self ''ExecutionId'') = Inr d2 \<longrightarrow>
      (\<exists>ids. get_all_experimentIds E self = Inr ids \<and> sorted ids \<and> distinct ids
          \<and> set ids = found_values E d1 \<union> found_values E d2
          \<and> (df_empty d1 \<and> df_empty d2 \<longrightarrow> ids = [])))
   \<and> (query_df E self (tag_values_for_flux self ''ExperimentId'' measurement) = Inr d3 \<and>
      query_df E self (tag_values_for_flux self ''ExecutionId'' measurement) = Inr d4 \<longrightarrow>
      (\<exists>ids. get_experimentIds_for_measurement E self measurement = Inr ids \<and> sorted ids
          \<and> distinct ids \<and> set ids = found_values E d3 \<union> found_values E d4
          \<and> (df_empty d3 \<and> df_empty d4 \<longrightarrow> ids = [])))
   \<and> (query_df E self (measurements_flux self experimentId start) = Inr d5 \<longrightarrow>
      (df_empty d5 \<longrightarrow> get_measurements_for_experimentId E self experimentId start = Inr [])
      \<and> (\<not> df_empty d5 \<and> (has_column d5 ''_measurement'' \<or> has_column d5 ''_value'') \<longrightarrow>
          (\<exists>ms. get_measurements_for_experimentId E self experimentId start = Inr ms
              \<and> sorted ms \<and> distinct ms \<and> set ms = found_measurements E d5)))"
proof (intro conjI impI)
  assume "query_df E self (tag_values_flux self ''ExperimentId'') = Inr d1 \<and>
    query_df E self (tag_values_flux self ''ExecutionId'') = Inr d2"
  then show "\<exists>ids. get_all_experimentIds E self = Inr ids \<and> sorted ids \<and> distinct ids
          \<and> set ids = found_values E d1 \<union> found_values E d2
          \<and> (df_empty d1 \<and> df_empty d2 \<longrightarrow> ids = [])"
    unfolding get_all_experimentIds_def
    using ids_of_two_tags [of E self "tag_values_flux self" d1 d2] by blast
next
  assume "query_df E self (tag_values_for_flux self ''ExperimentId'' measurement) = Inr d3 \<and>
      query_df E self (tag_values_for_flux self ''ExecutionId'' measurement) = Inr d4"
  then show "\<exists>ids. get_experimentIds_for_measurement E self measurement = Inr ids \<and> sorted ids
          \<and> distinct ids \<and> set ids = found_values E d3 \<union> found_values E d4
          \<and> (df_empty d3 \<and> df_empty d4 \<longrightarrow> ids = [])"
    unfolding get_experimentIds_for_measurement_def
    using ids_of_two_tags [of E self "\<lambda>tag. tag_values_for_flux self tag measurement" d3 d4]
    by blast
next
  assume "query_df E self (measurements_flux self experimentId start) = Inr d5" and "df_empty d5"
  then show "get_measurements_for_experimentId E self experimentId start = Inr []"
    by (simp add: get_measurements_for_experimentId_def)
next
  assume "query_df E self (measurements_flux self experimentId start) = Inr d5"
    and "\<not> df_empty d5 \<and> (has_column d5 ''_measurement'' \<or> has_column d5 ''_value'')"
  then show "\<exists>ms. get_measurements_for_experimentId E self experimentId start = Inr ms
              \<and> sorted ms \<and> distinct ms \<and> set ms = found_measurements E d5"
    using measurements_found by blast
qed

lemma demo_tag_queries:
  "query_df demo_ext demo_collector (tag_values_flux demo_collector ''ExperimentId'')
     = Inr (demo_values [Str ''7'', Str ''42'', NaN])"
  "query_df demo_ext demo_collector (tag_values_flux demo_collector ''ExecutionId'')
     = Inr (demo_values [Str ''42'', Str ''100''])"
  "query_df demo_ext demo_collector
     (tag_values_for_flux demo_collector ''ExperimentId'' ''Throughput_Measures'')
     = Inr (demo_values [Str ''7'', Str ''42'', NaN])"
  "query_df demo_ext demo_collector
     (tag_values_for_flux demo_collector ''ExecutionId'' ''Throughput_Measures'')
     = Inr (demo_values [Str ''42'', Str ''100''])"
  by code_simp+

lemma demo_measurement_queries:
  "query_df demo_ext demo_collector (measurements_flux demo_collector ''4'' ''-90d'') = Inr DataFrame"
  "query_df demo_ext demo_collector (measurements_flux demo_collector ''42'' ''-90d'')
     = Inr (demo_values [Str ''Throughput_Measures''])"
  by code_simp+

lemma demo_values_shape:
  "v \<noteq> [] \<Longrightarrow> \<not> df_empty (demo_values v)"
  "has_column (demo_values v) ''_value''"
  "df_empty DataFrame"
  by (simp_all add: df_empty_def demo_values_def has_column_def DataFrame_def)

theorem catalog_discovery_witness:
  "(\<exists>ids. get_all_experimentIds demo_ext demo_collector = Inr ids \<and> sorted ids \<and> distinct ids
       \<and> set ids = found_values demo_ext (demo_values [Str ''7'', Str ''42'', NaN])
                   \<union> found_values demo_ext (demo_values [Str ''42'', Str ''100'']))
   \<and> (\<exists>ids. get_experimentIds_for_measurement demo_ext demo_collector ''Throughput_Measures''
              = Inr ids \<and> sorted ids \<and> distinct ids
       \<and> set ids = found_values demo_ext (demo_values [Str ''7'', Str ''42'', NaN])
                   \<union> found_values demo_ext (demo_values [Str ''42'', Str ''100'']))
   \<and> get_measurements_for_experimentId demo_ext demo_collector ''4'' ''-90d'' = Inr []
   \<and> (\<exists>ms. get_measurements_for_experimentId demo_ext demo_collector ''42'' ''-90d'' = Inr ms
       \<and> sorted ms \<and> distinct ms
       \<and> set ms = found_measurements demo_ext (demo_values [Str ''Throughput_Measures'']))"
proof -
  note found = catalog_discovery [of demo_ext demo_collector
      "demo_values [Str ''7'', Str ''42'', NaN]" "demo_values [Str ''42'', Str ''100'']"
      "''Throughput_Measures''"
      "demo_values [Str ''7'', Str ''42'', NaN]" "demo_values [Str ''42'', Str ''100'']"
      "''42''" "''-90d''" "demo_values [Str ''Throughput_Measures'']"]
  note none = catalog_discovery [of demo_ext demo_collector
      "demo_values [Str ''7'', Str ''42'', NaN]" "demo_values [Str ''42'', Str ''100'']"
      "''Throughput_Measures''"
      "demo_values [Str ''7'', Str ''42'', NaN]" "demo_values [Str ''42'', Str ''100'']"
      "''4''" "''-90d''" DataFrame]
  have "\<exists>ids. get_all_experimentIds demo_ext demo_collector = Inr ids \<and> sorted ids \<and> distinct ids
       \<and> set ids = found_values demo_ext (demo_values [Str ''7'', Str ''42'', NaN])
                   \<union> found_values demo_ext (demo_values [Str ''42'', Str ''100''])"
    using found [THEN conjunct1] demo_tag_queries(1,2) by blast
  moreover have "\<exists>ids. get_experimentIds_for_measurement demo_ext demo_collector
              ''Throughput_Measures'' = Inr ids \<and> sorted ids \<and> distinct ids
       \<and> set ids = found_values demo_ext (demo_values [Str ''7'', Str ''42'', NaN])
                   \<union> found_values demo_ext (demo_values [Str ''42'', Str ''100''])"
    using found [THEN conjunct2, THEN conjunct1] demo_tag_queries(3,4) by blast
  moreover have "get_measurements_for_experimentId demo_ext demo_collector ''4'' ''-90d'' = Inr []"
    using none [THEN conjunct2, THEN conjunct2] demo_measurement_queries(1) demo_values_shape(3)
    by blast
  moreover have "\<exists>ms. get_measurements_for_experimentId demo_ext demo_collector ''42'' ''-90d''
         = Inr ms \<and> sorted ms \<and> distinct ms
       \<and> set ms = found_measurements demo_ext (demo_values [Str ''Throughput_Measures''])"
    using found [THEN conjunct2, THEN conjunct2] demo_measurement_queries(2)
      demo_values_shape(1) [of "[Str ''Throughput_Measures'']"]
      demo_values_shape(2) [of "[Str ''Throughput_Measures'']"]
    by blast
  ultimately show ?thesis
    by blast
qed

section \<open>Rebasing in the comparison of two experiments\<close>

lemma fold_min_Min: "fold min ts (t :: int) = Min (set (t # ts))"
  by (rule Min.set_eq_fold [symmetric])

lemma rebase_index_eq: "rebase_index ix = map (\<lambda>t. t - Min (set ix)) ix"
  by (cases ix) (simp_all add: rebase_index_def index_min_def fold_min_Min del: set_simps)

lemma rebase_index_Min:
  assumes "ix \<noteq> []"
  shows "Min (set (rebase_index ix)) = 0"
proof -
  have "Min (set (rebase_index ix)) = Min ((\<lambda>t. t - Min (set ix)) ` set ix)"
    by (simp add: rebase_index_eq)
  also have "\<dots> = Min (set ix) - Min (set ix)"
    using assms by (intro mono_Min_commute [symmetric]) (auto simp: mono_def)
  finally show ?thesis by simp
qed

lemma rebase_index_diff:
  "i < length ix \<Longrightarrow> j < length ix \<Longrightarrow>
     rebase_index ix ! i - rebase_index ix ! j = ix ! i - ix ! j"
  by (simp add: rebase_index_eq)

lemma rebase_index_three:
  "rebase_index [T, T + 5000000000, T + 10000000000] = [0, 5000000000, 10000000000]"
  by (simp add: rebase_index_def index_min_def min_def)

lemma get_data_two_frames:
  assumes "parse_request a = Inr q" and "other \<noteq> []"
    and "retrieve_request E G datasource experimentId q = (Inr (PyDataFrame d1), G')"
    and "retrieve_request E
           (assign_index G' datasource experimentId q
              (PyDataFrame (d1\<lparr>index := rebase_index (index d1)\<rparr>)))
           datasource other q = (Inr (PyDataFrame d2), G'')"
  shows "fst (get_data E G datasource experimentId (Some other) a)
         = bind (synchronize E
                   (PyDict [(''series1'', PyDataFrame (d1\<lparr>index := rebase_index (index d1)\<rparr>)),
                            (''series2'', PyDataFrame (d2\<lparr>index := rebase_index (index d2)\<rparr>))])
                   (q_max_lag q) False)
              (series_response E)"
  using assms by (simp add: get_data_def rebase_def)

text \<open>
  C10. In the two-experiment path of \<^verbatim>\<open>get_data\<close>, each of the two retrieved tables has
  its own minimum subtracted from its time index before the pair goes to
  \<^verbatim>\<open>synchronize\<close>. For a non-empty index the rebased index is the index minus its
  minimum, its minimum is zero, and the differences between any two of its entries
  are those of the index. The index \<open>[T, T + 5 s, T + 10 s]\<close>, in nanoseconds, becomes
  \<open>[0 s, 5 s, 10 s]\<close>.
\<close>

theorem comparison_rebases:
  "(parse_request a = Inr q \<and> other \<noteq> []
    \<and> retrieve_request E G datasource experimentId q = (Inr (PyDataFrame d1), G')
    \<and> retrieve_request E
         (assign_index G' datasource experimentId q
            (PyDataFrame (d1\<lparr>index := rebase_index (index d1)\<rparr>)))
         datasource other q = (Inr (PyDataFrame d2), G'')
    \<longrightarrow> fst (get_data E G datasource experimentId (Some other) a)
        = bind (synchronize E
                  (PyDict [(''series1'', PyDataFrame (d1\<lparr>index := rebase_index (index d1)\<rparr>)),
                           (''series2'', PyDataFrame (d2\<lparr>index := rebase_index (index d2)\<rparr>))])
                  (q_max_lag q) False)
             (series_response E))
   \<and> (ix \<noteq> [] \<longrightarrow> rebase_index ix = map (\<lambda>t. t - Min (set ix)) ix
                 \<and> Min (set (rebase_index ix)) = 0)
   \<and> (i < length ix \<and> j < length ix
      \<longrightarrow> rebase_index ix ! i - rebase_index ix ! j = ix ! i - ix ! j)
   \<and> rebase_index [T, T + 5000000000, T + 10000000000] = [0, 5000000000, 10000000000]"
  using get_data_two_frames [of a q other E G datasource experimentId d1 G' d2 G'']
    rebase_index_eq [of ix] rebase_index_Min [of ix] rebase_index_diff [of i ix j]
    rebase_index_three [of T]
  by blast

lemma demo_fetch_42:
  "collector_get_data demo_ext demo_collector ''42'' [] [] None False 10000 ArgNone ArgNone ''1s''
     ''-30d''
   = Inr \<lparr>index = [1000, 2000], columns = [(''Throughput (Mbps)'', [Num 10, Num 12])]\<rparr>"
  by code_simp

lemma demo_fetch_43:
  "collector_get_data demo_ext demo_collector ''43'' [] [] None False 10000 ArgNone ArgNone ''1s''
     ''-30d''
   = Inr \<lparr>index = [5000, 5005, 5010], columns = [(''Throughput (Mbps)'', [Num 20, Num 21, Num 22])]\<rparr>"
  by code_simp

lemma demo_keys_differ:
  "dataid ''uma'' ''43'' [] [] False None None ''1s'' ArgNone
   \<noteq> dataid ''uma'' ''42'' [] [] False None None ''1s'' ArgNone"
  by (simp add: dataid_def)

theorem comparison_rebases_witness:
  "fst (get_data demo_ext (demo_app True) ''uma'' ''42'' (Some ''43'') [])
     = bind (synchronize demo_ext
               (PyDict
                  [(''series1'',
                    PyDataFrame \<lparr>index = rebase_index [1000, 2000],
                                columns = [(''Throughput (Mbps)'', [Num 10, Num 12])]\<rparr>),
                   (''series2'',
                    PyDataFrame \<lparr>index = rebase_index [5000, 5005, 5010],
                                columns = [(''Throughput (Mbps)'', [Num 20, Num 21, Num 22])]\<rparr>)])
               ''1s'' False)
          (series_response demo_ext)
   \<and> rebase_index [5000, 5005, 5010] = map (\<lambda>t. t - Min (set [5000, 5005, 5010])) [5000, 5005, 5010]
   \<and> Min (set (rebase_index [5000, 5005, 5010])) = 0
   \<and> rebase_index [5000, 5005, 5010] ! 2 - rebase_index [5000, 5005, 5010] ! 0
     = [5000, 5005, 5010] ! 2 - [5000, 5005, 5010] ! 0
   \<and> rebase_index [1000, 1000 + 5000000000, 1000 + 10000000000] = [0, 5000000000, 10000000000]"
proof -
  let ?d1 = "\<lparr>index = [1000, 2000], columns = [(''Throughput (Mbps)'', [Num 10, Num 12])]\<rparr>"
  let ?d2 = "\<lparr>index = [5000, 5005, 5010],
              columns = [(''Throughput (Mbps)'', [Num 20, Num 21, Num 22])]\<rparr>"
  let ?k1 = "dataid ''uma'' ''42'' [] [] False None None ''1s'' ArgNone"
  let ?k2 = "dataid ''uma'' ''43'' [] [] False None None ''1s'' ArgNone"
  let ?G1 = "(demo_app True)\<lparr>data_cache := (data_cache (demo_app True))(?k1 \<mapsto> PyDataFrame ?d1),
               stdout := stdout (demo_app True) @ [Line ''-- Retrieving uncached data'', Elapsed]\<rparr>"
  let ?G1' = "assign_index ?G1 ''uma'' ''42'' demo_plain
                (PyDataFrame (?d1\<lparr>index := rebase_index (index ?d1)\<rparr>))"
  have parsed: "parse_request [] = Inr demo_plain"
    by (simp add: parse_request_no_args demo_plain_def)
  have first: "retrieve_request demo_ext (demo_app True) ''uma'' ''42'' demo_plain
               = (Inr (PyDataFrame ?d1), ?G1)"
    unfolding retrieve_request_def demo_plain_def request.simps
    by (rule retrieve_data_miss [OF demo_available _ _ demo_fetch_42]) simp_all
  have G1': "available ?G1' ''uma'' = Some demo_collector" "enable_cache ?G1'"
      "data_cache ?G1' ?k2 = None"
    by (simp_all add: assign_index_def demo_plain_def runs_filter_def available_sources
        demo_available demo_keys_differ)
  have second: "retrieve_request demo_ext ?G1' ''uma'' ''43'' demo_plain
               = (Inr (PyDataFrame ?d2),
                  ?G1'\<lparr>data_cache := (data_cache ?G1')(?k2 \<mapsto> PyDataFrame ?d2),
                    stdout := stdout ?G1' @ [Line ''-- Retrieving uncached data'', Elapsed]\<rparr>)"
    unfolding retrieve_request_def demo_plain_def request.simps
    by (rule retrieve_data_miss [OF _ _ _ demo_fetch_43])
      (use G1' in \<open>simp_all add: demo_plain_def\<close>)
  note rebased = comparison_rebases [where a = "[]" and q = demo_plain and other = "''43''"
      and E = demo_ext and G = "demo_app True" and datasource = "''uma''"
      and experimentId = "''42''" and ?d1.0 = ?d1 and ?d2.0 = ?d2 and G' = ?G1
      and ix = "[5000, 5005, 5010]" and i = 2 and j = 0 and T = 1000]
  have "fst (get_data demo_ext (demo_app True) ''uma'' ''42'' (Some ''43'') [])
     = bind (synchronize demo_ext
               (PyDict [(''series1'', PyDataFrame (?d1\<lparr>index := rebase_index (index ?d1)\<rparr>)),
                        (''series2'', PyDataFrame (?d2\<lparr>index := rebase_index (index ?d2)\<rparr>))])
               (q_max_lag demo_plain) False)
          (series_response demo_ext)"
    using rebased [THEN conjunct1] parsed first second by blast
  then have route: "fst (get_data demo_ext (demo_app True) ''uma'' ''42'' (Some ''43'') [])
     = bind (synchronize demo_ext
               (PyDict
                  [(''series1'',
                    PyDataFrame \<lparr>index = rebase_index [1000, 2000],
                                columns = [(''Throughput (Mbps)'', [Num 10, Num 12])]\<rparr>),
                   (''series2'',
                    PyDataFrame \<lparr>index = rebase_index [5000, 5005, 5010],
                                columns = [(''Throughput (Mbps)'', [Num 20, Num 21, Num 22])]\<rparr>)])
               ''1s'' False)
          (series_response demo_ext)"
    by (simp add: demo_plain_def)
  have "rebase_index [5000, 5005, 5010]
          = map (\<lambda>t. t - Min (set [5000, 5005, 5010])) [5000, 5005, 5010]
        \<and> Min (set (rebase_index [5000, 5005, 5010])) = 0"
    using rebased [THEN conjunct2, THEN conjunct1] by blast
  moreover have "rebase_index [5000, 5005, 5010] ! 2 - rebase_index [5000, 5005, 5010] ! 0
     = [5000, 5005, 5010] ! 2 - [5000, 5005, 5010] ! 0"
    using rebased [THEN conjunct2, THEN conjunct2, THEN conjunct1] by simp
  moreover have "rebase_index [1000, 1000 + 5000000000, 1000 + 10000000000]
                 = [0, 5000000000, 10000000000]"
    using rebased [THEN conjunct2, THEN conjunct2, THEN conjunct2] by blast
  ultimately show ?thesis
    using route by blast
qed

end
